theory Spec2Isabelle
  imports Main "HOL-Library.AList" "HOL-Library.Multiset" "HOL-Library.Option_ord"
begin

section \<open>Dates, filters and the date extractor\<close>

text \<open>
  A JavaScript \<^verbatim>\<open>Date\<close> is modelled by its time value, the number of milliseconds
  since the epoch, an integer: comparing two dates with \<^verbatim>\<open><\<close> or \<^verbatim>\<open>>=\<close> compares
  these numbers. \<^verbatim>\<open>null\<close> and \<^verbatim>\<open>undefined\<close> are \<open>None\<close>; a \<^verbatim>\<open>Date\<close> object is
  always truthy, so \<^verbatim>\<open>!startDate\<close> is \<open>startDate = None\<close>. The NaN time value of an
  invalid date is not a value of this type; the extractor and the two selectors, which
  can be handed one, are given again on such dates in the section on dates that are not
  valid.
\<close>

type_synonym date = int

text \<open>
  The operator object of a timestamp sub-predicate, \<^verbatim>\<open>{ $gte, $lte, $gt, $lt }\<close>; an
  operator that is not given is \<open>None\<close>.
\<close>

record date_ops =
  gte :: "date option"
  lte :: "date option"
  gt :: "date option"
  lt :: "date option"

text \<open>
  The value a filter gives to one field: a bare \<^verbatim>\<open>Date\<close>, an operator object whose
  operands are dates, or a string such as \<^verbatim>\<open>'approved'\<close>; other kinds of values are
  not modelled. The empty string is the falsy one.
\<close>

datatype cond = DateVal date | OpsObj date_ops | OtherVal string

text \<open>
  A filter is a JavaScript object: a list of properties in insertion order. Reading a
  property is \<open>map_of\<close>, assigning one is \<open>AList.update\<close> (in place when the property
  exists, appended otherwise), \<^verbatim>\<open>delete\<close> is \<open>AList.delete\<close>.
\<close>

type_synonym query = "(string \<times> cond) list"

record date_range =
  startDate :: "date option"
  endDate :: "date option"

definition noOps :: date_ops where
  "noOps = \<lparr>gte = None, lte = None, gt = None, lt = None\<rparr>"

text \<open>
  \<^verbatim>\<open>extractDateRange(query, dateField)\<close>: \<open>None\<close> is the \<^verbatim>\<open>null\<close> returned when the field
  is absent or falsy. In the operator object the four tests run in the order of the
  source, so \<^verbatim>\<open>$gt\<close> overwrites the start taken from \<^verbatim>\<open>$gte\<close> and \<^verbatim>\<open>$lt\<close> overwrites the
  end taken from \<^verbatim>\<open>$lte\<close>. A truthy value that is neither a date nor an object gives a
  range with no bound.
\<close>

definition extractDateRange :: "query \<Rightarrow> string \<Rightarrow> date_range option" where
  "extractDateRange query dateField =
     (case map_of query dateField of
        None \<Rightarrow> None
      | Some (DateVal d) \<Rightarrow> Some \<lparr>startDate = Some d, endDate = Some d\<rparr>
      | Some (OpsObj ops) \<Rightarrow>
          (let startDate0 = (case gte ops of Some v \<Rightarrow> Some v | None \<Rightarrow> None);
               endDate0 = (case lte ops of Some v \<Rightarrow> Some v | None \<Rightarrow> None);
               startDate1 = (case gt ops of Some v \<Rightarrow> Some v | None \<Rightarrow> startDate0);
               endDate1 = (case lt ops of Some v \<Rightarrow> Some v | None \<Rightarrow> endDate0)
           in Some \<lparr>startDate = startDate1, endDate = endDate1\<rparr>)
      | Some (OtherVal s) \<Rightarrow>
          if s = [] then None else Some \<lparr>startDate = None, endDate = None\<rparr>)"

text \<open>\<^verbatim>\<open>dateRange?.startDate\<close> and \<^verbatim>\<open>dateRange?.endDate\<close>.\<close>

definition rangeStart :: "date_range option \<Rightarrow> date option" where
  "rangeStart r = (case r of None \<Rightarrow> None | Some x \<Rightarrow> startDate x)"

definition rangeEnd :: "date_range option \<Rightarrow> date option" where
  "rangeEnd r = (case r of None \<Rightarrow> None | Some x \<Rightarrow> endDate x)"

section \<open>Tier selection\<close>

text \<open>
  \<^verbatim>\<open>shouldQueryArchive\<close> and \<^verbatim>\<open>shouldQueryPrimary\<close> of \<^verbatim>\<open>utils/archiveQuery.js\<close>. Each
  call reads the clock through \<^verbatim>\<open>getArchiveThresholdDate()\<close>; the date it obtains is
  the first argument here.
\<close>

definition shouldQueryArchive :: "date \<Rightarrow> date option \<Rightarrow> date option \<Rightarrow> bool" where
  "shouldQueryArchive threshold startD endD =
     (if startD = None \<and> endD = None then True
      else if (case endD of Some e \<Rightarrow> e < threshold | None \<Rightarrow> False) then True
      else if (case startD of Some s \<Rightarrow> s < threshold | None \<Rightarrow> False) then True
      else False)"

definition shouldQueryPrimary :: "date \<Rightarrow> date option \<Rightarrow> date option \<Rightarrow> bool" where
  "shouldQueryPrimary threshold startD endD =
     (if startD = None \<and> endD = None then True
      else if (case startD of Some s \<Rightarrow> s \<ge> threshold | None \<Rightarrow> False) then True
      else if (case endD of Some e \<Rightarrow> e \<ge> threshold | None \<Rightarrow> False) then True
      else False)"

section \<open>Splitting a filter at the threshold\<close>

record split_result =
  primaryQuery :: query
  archiveQuery :: query
  queryBoth :: bool

text \<open>
  \<^verbatim>\<open>splitQueryByDate(query, dateField)\<close>. The function reads the clock four times: in
  the two selection tests of \<^verbatim>\<open>queryBoth\<close> (\<open>tA\<close>, \<open>tP\<close>), for its own \<^verbatim>\<open>threshold\<close>
  (\<open>tS\<close>) and in the selection test of the one-tier branch (\<open>tA2\<close>).
\<close>

definition splitQueryByDate ::
  "date \<Rightarrow> date \<Rightarrow> date \<Rightarrow> date \<Rightarrow> query \<Rightarrow> string \<Rightarrow> split_result" where
  "splitQueryByDate tA tP tS tA2 query dateField =
     (let dateRange = extractDateRange query dateField;
          both = (shouldQueryArchive tA (rangeStart dateRange) (rangeEnd dateRange) \<and>
                  shouldQueryPrimary tP (rangeStart dateRange) (rangeEnd dateRange))
      in case dateRange of
           None \<Rightarrow> \<lparr>primaryQuery = query, archiveQuery = query, queryBoth = both\<rparr>
         | Some r \<Rightarrow>
             if both then
               (case (startDate r, endDate r) of
                  (Some s, Some e) \<Rightarrow>
                    \<lparr>primaryQuery = AList.update dateField
                       (OpsObj (noOps\<lparr>gte := Some (if s < tS then tS else s), lte := Some e\<rparr>)) query,
                     archiveQuery = AList.update dateField
                       (OpsObj (noOps\<lparr>gte := Some s, lt := Some (if e < tS then e else tS)\<rparr>)) query,
                     queryBoth = both\<rparr>
                | (Some s, None) \<Rightarrow>
                    \<lparr>primaryQuery = AList.update dateField
                       (OpsObj (noOps\<lparr>gte := Some (if s < tS then tS else s)\<rparr>)) query,
                     archiveQuery = AList.update dateField
                       (OpsObj (noOps\<lparr>lt := Some tS\<rparr>)) query,
                     queryBoth = both\<rparr>
                | (None, Some e) \<Rightarrow>
                    \<lparr>primaryQuery = AList.update dateField
                       (OpsObj (noOps\<lparr>lte := Some e\<rparr>)) query,
                     archiveQuery = AList.update dateField
                       (OpsObj (noOps\<lparr>lt := Some (if e < tS then e else tS)\<rparr>)) query,
                     queryBoth = both\<rparr>
                | (None, None) \<Rightarrow>
                    \<lparr>primaryQuery = query, archiveQuery = query, queryBoth = both\<rparr>)
             else if shouldQueryArchive tA2 (startDate r) (endDate r) then
               \<lparr>primaryQuery = AList.delete dateField query, archiveQuery = query,
                queryBoth = both\<rparr>
             else
               \<lparr>primaryQuery = query, archiveQuery = AList.delete dateField query,
                queryBoth = both\<rparr>)"

text \<open>
  What the stores do with a timestamp sub-predicate (the comparison operators of the
  MongoDB query language): a bare date is equality, \<^verbatim>\<open>$gte\<close> and \<^verbatim>\<open>$lte\<close> are
  inclusive, \<^verbatim>\<open>$gt\<close> and \<^verbatim>\<open>$lt\<close> strict; an operator that is not given constrains
  nothing.
\<close>

definition opsHold :: "date_ops \<Rightarrow> date \<Rightarrow> bool" where
  "opsHold ops d =
     ((case gte ops of Some v \<Rightarrow> v \<le> d | None \<Rightarrow> True) \<and>
      (case lte ops of Some v \<Rightarrow> d \<le> v | None \<Rightarrow> True) \<and>
      (case gt ops of Some v \<Rightarrow> v < d | None \<Rightarrow> True) \<and>
      (case lt ops of Some v \<Rightarrow> d < v | None \<Rightarrow> True))"

section \<open>Dates that are not valid\<close>

text \<open>
  The three functions above take their dates as time values, which is every valid
  date. Here they are again on what JavaScript can hand them: a \<^verbatim>\<open>Date\<close> object holds a
  time value or NaN (an invalid date), and the operand of an operator may be something
  else than a \<^verbatim>\<open>Date\<close>, which \<^verbatim>\<open>new Date(operand)\<close> turns into a date, an invalid one
  when the operand cannot be read as a date. \<open>NonDate d\<close> is a truthy operand that is not
  a \<^verbatim>\<open>Date\<close> and that \<^verbatim>\<open>new Date\<close> turns into \<open>d\<close>.
\<close>

datatype jsdate = Valid date | Invalid

datatype operand = DateObj jsdate | NonDate jsdate

text \<open>\<^verbatim>\<open>operand instanceof Date ? operand : new Date(operand)\<close>.\<close>

fun toDate :: "operand \<Rightarrow> jsdate" where
  "toDate (DateObj d) = d"
| "toDate (NonDate d) = d"

text \<open>
  \<^verbatim>\<open>d < threshold\<close> and \<^verbatim>\<open>d >= threshold\<close> on \<^verbatim>\<open>Date\<close> objects compare the time values;
  both are false when one of them is NaN. The threshold is made from \<^verbatim>\<open>new Date()\<close> and
  is always valid.
\<close>

definition jsLess :: "jsdate \<Rightarrow> date \<Rightarrow> bool" where
  "jsLess d threshold = (case d of Valid x \<Rightarrow> x < threshold | Invalid \<Rightarrow> False)"

definition jsGreaterEq :: "jsdate \<Rightarrow> date \<Rightarrow> bool" where
  "jsGreaterEq d threshold = (case d of Valid x \<Rightarrow> x \<ge> threshold | Invalid \<Rightarrow> False)"

record operand_ops =
  gteJS :: "operand option"
  lteJS :: "operand option"
  gtJS :: "operand option"
  ltJS :: "operand option"

datatype jscond = JSDate jsdate | JSOps operand_ops | JSOther string

record jsdate_range =
  startDateJS :: "jsdate option"
  endDateJS :: "jsdate option"

definition extractDateRangeJS :: "(string \<times> jscond) list \<Rightarrow> string \<Rightarrow> jsdate_range option" where
  "extractDateRangeJS query dateField =
     (case map_of query dateField of
        None \<Rightarrow> None
      | Some (JSDate d) \<Rightarrow> Some \<lparr>startDateJS = Some d, endDateJS = Some d\<rparr>
      | Some (JSOps ops) \<Rightarrow>
          (let startDate0 = (case gteJS ops of Some v \<Rightarrow> Some (toDate v) | None \<Rightarrow> None);
               endDate0 = (case lteJS ops of Some v \<Rightarrow> Some (toDate v) | None \<Rightarrow> None);
               startDate1 = (case gtJS ops of Some v \<Rightarrow> Some (toDate v) | None \<Rightarrow> startDate0);
               endDate1 = (case ltJS ops of Some v \<Rightarrow> Some (toDate v) | None \<Rightarrow> endDate0)
           in Some \<lparr>startDateJS = startDate1, endDateJS = endDate1\<rparr>)
      | Some (JSOther s) \<Rightarrow>
          if s = [] then None else Some \<lparr>startDateJS = None, endDateJS = None\<rparr>)"

definition shouldQueryArchiveJS :: "date \<Rightarrow> jsdate option \<Rightarrow> jsdate option \<Rightarrow> bool" where
  "shouldQueryArchiveJS threshold startD endD =
     (if startD = None \<and> endD = None then True
      else if (case endD of Some e \<Rightarrow> jsLess e threshold | None \<Rightarrow> False) then True
      else if (case startD of Some s \<Rightarrow> jsLess s threshold | None \<Rightarrow> False) then True
      else False)"

definition shouldQueryPrimaryJS :: "date \<Rightarrow> jsdate option \<Rightarrow> jsdate option \<Rightarrow> bool" where
  "shouldQueryPrimaryJS threshold startD endD =
     (if startD = None \<and> endD = None then True
      else if (case startD of Some s \<Rightarrow> jsGreaterEq s threshold | None \<Rightarrow> False) then True
      else if (case endD of Some e \<Rightarrow> jsGreaterEq e threshold | None \<Rightarrow> False) then True
      else False)"

text \<open>A filter value over valid dates, as a filter value of JavaScript.\<close>

definition validOps :: "date_ops \<Rightarrow> operand_ops" where
  "validOps ops =
     \<lparr>gteJS = map_option (\<lambda>d. DateObj (Valid d)) (gte ops),
      lteJS = map_option (\<lambda>d. DateObj (Valid d)) (lte ops),
      gtJS = map_option (\<lambda>d. DateObj (Valid d)) (gt ops),
      ltJS = map_option (\<lambda>d. DateObj (Valid d)) (lt ops)\<rparr>"

fun validCond :: "cond \<Rightarrow> jscond" where
  "validCond (DateVal d) = JSDate (Valid d)"
| "validCond (OpsObj ops) = JSOps (validOps ops)"
| "validCond (OtherVal s) = JSOther s"

definition validRange :: "date_range \<Rightarrow> jsdate_range" where
  "validRange r = \<lparr>startDateJS = map_option Valid (startDate r),
                    endDateJS = map_option Valid (endDate r)\<rparr>"

section \<open>Documents and stores\<close>

text \<open>
  A document of one of the three ledgers, with the fields this code reads or writes:
  the three designated timestamps (a sale has \<^verbatim>\<open>saleDate\<close>, a payment
  \<^verbatim>\<open>transactionDate\<close>, a request \<^verbatim>\<open>requestedAt\<close>), \<^verbatim>\<open>createdAt\<close> (every schema sets
  \<^verbatim>\<open>timestamps: true\<close>), the foreign keys, the two identity fields of an archived
  document, and the remaining scalar fields as a property list. A foreign key is unset
  (\<^verbatim>\<open>null\<close>), an identifier, or the referenced entity once resolved. The main
  database compares identifiers by value.
\<close>

type_synonym oid = nat

datatype ref = Unset | Ref oid | Obj entity
and entity = Entity (eid: oid) (payload: string) (eproduct: ref)

record doc =
  ident :: oid
  saleDate :: "date option"
  transactionDate :: "date option"
  requestedAt :: "date option"
  createdAt :: date
  salesman :: ref
  dealer :: ref
  productFk :: ref
  shopkeeper :: ref
  dealerRequest :: ref
  processedBy :: ref
  originalId :: "oid option"
  originalIdCopy :: "oid option"
  attrs :: "(string \<times> string) list"

text \<open>An entry of \<^verbatim>\<open>populate\<close>: a path, or an object with a path and maybe a selection.\<close>

datatype pop = PopStr string | PopObj string "string option"

fun popPath :: "pop \<Rightarrow> string" where
  "popPath (PopStr s) = s"
| "popPath (PopObj p sel) = p"

fun popSelect :: "pop \<Rightarrow> string option" where
  "popSelect (PopStr s) = None"
| "popSelect (PopObj p None) = None"
| "popSelect (PopObj p (Some sel)) = (if sel = [] then None else Some sel)"

text \<open>A sort object such as \<^verbatim>\<open>{ saleDate: -1, createdAt: -1 }\<close>.\<close>

type_synonym sort_spec = "(string \<times> int) list"

text \<open>
  Every exception a store raises (connection lost, time-out, cast error) is the one
  value \<open>StoreError\<close>. A store operation returns \<open>Inl\<close> of it or \<open>Inr\<close> of its result.
\<close>

datatype error = StoreError

text \<open>
  What a query builder has been given when \<^verbatim>\<open>exec()\<close> runs: \<open>None\<close> when \<^verbatim>\<open>.sort\<close>,
  \<^verbatim>\<open>.skip\<close> or \<^verbatim>\<open>.limit\<close> was not called.
\<close>

record find_opts =
  fPopulate :: "pop list"
  fSort :: "sort_spec option"
  fSkip :: "nat option"
  fLimit :: "nat option"
  fLean :: bool

text \<open>
  A model of the object-document mapper (\<^verbatim>\<open>Sale\<close>, \<^verbatim>\<open>SaleArchive\<close>, ...): the two
  operations the federation awaits. They are parameters of everything below.
\<close>

record store =
  execFind :: "query \<Rightarrow> find_opts \<Rightarrow> error + doc list"
  countDocuments :: "query \<Rightarrow> error + nat"

text \<open>
  A model of the main database that holds referenced entities:
  \<^verbatim>\<open>find({ _id: { $in: ids } }).select(s).lean()\<close> and \<^verbatim>\<open>findById(id).select(s).lean()\<close>.
\<close>

record refstore =
  findIn :: "oid list \<Rightarrow> string \<Rightarrow> error + entity list"
  findById :: "oid \<Rightarrow> string \<Rightarrow> error + entity option"

datatype coll = UserM | ProductM | ShopkeeperM | DealerRequestM

type_synonym refs = "coll \<Rightarrow> refstore"

text \<open>The lookups a resolution sends to the main database, in the order it sends them.\<close>

datatype lookup = Batch coll "oid list" | Point coll oid

section \<open>Archive queries and reference resolution\<close>

text \<open>The options of the \<^verbatim>\<open>queryArchive...\<close> functions; \<^verbatim>\<open>limit: null\<close> is \<open>None\<close>.\<close>

record archive_opts =
  aPopulate :: "pop list"
  aSort :: "sort_spec option"
  aSkip :: nat
  aLimit :: "nat option"
  aLean :: bool

text \<open>
  The builder calls shared by the three functions: \<^verbatim>\<open>if (sort)\<close>, \<^verbatim>\<open>if (skip)\<close>,
  \<^verbatim>\<open>if (limit)\<close>, \<^verbatim>\<open>if (lean)\<close>. A skip of 0 and a limit of 0 or \<^verbatim>\<open>null\<close> are falsy, so
  \<^verbatim>\<open>.skip\<close> and \<^verbatim>\<open>.limit\<close> are not called for them. No \<^verbatim>\<open>.populate\<close> is called on an
  archive model.
\<close>

definition archiveFindOpts :: "archive_opts \<Rightarrow> find_opts" where
  "archiveFindOpts opts =
     \<lparr>fPopulate = [],
      fSort = aSort opts,
      fSkip = (if aSkip opts \<noteq> 0 then Some (aSkip opts) else None),
      fLimit = (case aLimit opts of None \<Rightarrow> None
                | Some n \<Rightarrow> if n \<noteq> 0 then Some n else None),
      fLean = aLean opts\<rparr>"

text \<open>
  The identifiers that the records hold are objects, and a JavaScript \<^verbatim>\<open>Set\<close> compares
  objects by identity, not by value. The object a record holds in a field is told apart
  from every other by the position of the record in the batch and the name of the
  field; the third component is the identifier it stands for.
\<close>

type_synonym idobj = "nat \<times> string \<times> oid"

text \<open>
  \<^verbatim>\<open>Set.add\<close>: a set keeps the order of first insertion, and an object that is already
  in it is not added again. Two objects that stand for the same identifier are two
  members.
\<close>

definition setAdd :: "idobj \<Rightarrow> idobj list \<Rightarrow> idobj list" where
  "setAdd x s = (if x \<in> set s then s else s @ [x])"

text \<open>
  A truthy foreign key, held in the given field by the record at the given position,
  added to a set; a falsy one is not added.
\<close>

definition addRef :: "nat \<Rightarrow> string \<Rightarrow> ref \<Rightarrow> idobj list \<Rightarrow> idobj list" where
  "addRef n f r s =
     (case r of Unset \<Rightarrow> s | Ref i \<Rightarrow> setAdd (n, f, i) s | Obj e \<Rightarrow> setAdd (n, f, eid e) s)"

text \<open>\<^verbatim>\<open>Array.from(ids)\<close>: the identifiers of the members, in order.\<close>

definition idValues :: "idobj list \<Rightarrow> oid list" where
  "idValues s = map (\<lambda>x. snd (snd x)) s"

text \<open>
  The body of the \<^verbatim>\<open>forEach\<close> that collects identifiers in \<^verbatim>\<open>queryArchiveSales\<close>, on
  the triple \<^verbatim>\<open>(userIds, productIds, shopkeeperIds)\<close>, for the record at a position of
  the batch.
\<close>

definition collectDoc ::
  "string \<Rightarrow> nat \<times> doc \<Rightarrow> idobj list \<times> idobj list \<times> idobj list \<Rightarrow>
   idobj list \<times> idobj list \<times> idobj list" where
  "collectDoc path nr ids =
     (case ids of (userIds, productIds, shopkeeperIds) \<Rightarrow>
        (let n = fst nr; r = snd nr;
             userIds1 = (if path = ''salesman'' then addRef n ''salesman'' (salesman r) userIds
                         else userIds);
             userIds2 = (if path = ''dealer'' then addRef n ''dealer'' (dealer r) userIds1
                         else userIds1);
             productIds1 = (if path = ''product'' then addRef n ''product'' (productFk r) productIds
                            else productIds);
             shopkeeperIds1 = (if path = ''shopkeeper''
                               then addRef n ''shopkeeper'' (shopkeeper r) shopkeeperIds
                               else shopkeeperIds)
         in (userIds2, productIds1, shopkeeperIds1)))"

definition collectIds ::
  "pop list \<Rightarrow> doc list \<Rightarrow> idobj list \<times> idobj list \<times> idobj list" where
  "collectIds populate resultObjs =
     fold (\<lambda>pop ids. fold (collectDoc (popPath pop)) (enumerate 0 resultObjs) ids) populate
       ([], [], [])"

text \<open>
  \<^verbatim>\<open>new Map(entities.map(e => [e._id.toString(), e]))\<close>: a later entry replaces an earlier
  one with the same key.
\<close>

definition lookupMap :: "entity list \<Rightarrow> oid \<Rightarrow> entity option" where
  "lookupMap entities = map_of (rev (map (\<lambda>e. (eid e, e)) entities))"

text \<open>
  \<^verbatim>\<open>map.get(field.toString()) || null\<close>: an identifier is looked up by its value; an
  entity that is already in the field prints as \<^verbatim>\<open>[object Object]\<close>, which is no key.
\<close>

definition stitch :: "(oid \<Rightarrow> entity option) \<Rightarrow> ref \<Rightarrow> ref" where
  "stitch m r = (case r of Unset \<Rightarrow> Unset
                 | Ref i \<Rightarrow> (case m i of Some e \<Rightarrow> Obj e | None \<Rightarrow> Unset)
                 | Obj e \<Rightarrow> Unset)"

text \<open>The \<^verbatim>\<open>if / else if\<close> chain that stitches one path of one sale.\<close>

definition stitchSale ::
  "(oid \<Rightarrow> entity option) \<Rightarrow> (oid \<Rightarrow> entity option) \<Rightarrow> (oid \<Rightarrow> entity option) \<Rightarrow>
   pop \<Rightarrow> doc \<Rightarrow> doc" where
  "stitchSale userMap productMap shopkeeperMap pop resultObj =
     (if popPath pop = ''salesman'' \<and> salesman resultObj \<noteq> Unset
        then resultObj\<lparr>salesman := stitch userMap (salesman resultObj)\<rparr>
      else if popPath pop = ''dealer'' \<and> dealer resultObj \<noteq> Unset
        then resultObj\<lparr>dealer := stitch userMap (dealer resultObj)\<rparr>
      else if popPath pop = ''product'' \<and> productFk resultObj \<noteq> Unset
        then resultObj\<lparr>productFk := stitch productMap (productFk resultObj)\<rparr>
      else if popPath pop = ''shopkeeper'' \<and> shopkeeper resultObj \<noteq> Unset
        then resultObj\<lparr>shopkeeper := stitch shopkeeperMap (shopkeeper resultObj)\<rparr>
      else resultObj)"

text \<open>
  The resolution of \<^verbatim>\<open>queryArchiveSales\<close>: the identifiers are collected, then the
  three conditional batch finds of the \<^verbatim>\<open>Promise.all\<close> are sent (a find is sent only for
  a set that is not empty), then every sale is stitched. When a find fails the function
  throws, all finds having been sent. The result is the list of lookups sent and the
  outcome.
\<close>

definition resolveSales ::
  "refs \<Rightarrow> pop list \<Rightarrow> doc list \<Rightarrow> lookup list \<times> (error + doc list)" where
  "resolveSales rs populate results =
     (case collectIds populate results of (userIds, productIds, shopkeeperIds) \<Rightarrow>
        (let sent = (if userIds \<noteq> [] then [Batch UserM (idValues userIds)] else []) @
                    (if productIds \<noteq> [] then [Batch ProductM (idValues productIds)] else []) @
                    (if shopkeeperIds \<noteq> [] then [Batch ShopkeeperM (idValues shopkeeperIds)]
                     else []);
             users = (if userIds \<noteq> [] then findIn (rs UserM) (idValues userIds) ''name email''
                      else Inr []);
             products = (if productIds \<noteq> []
                         then findIn (rs ProductM) (idValues productIds)
                                ''title packetPrice packetsPerStrip image''
                         else Inr []);
             shopkeepers = (if shopkeeperIds \<noteq> []
                            then findIn (rs ShopkeeperM) (idValues shopkeeperIds)
                                   ''name phone email location''
                            else Inr [])
         in case (users, products, shopkeepers) of
              (Inr us, Inr ps, Inr ss) \<Rightarrow>
                (sent, Inr (map (\<lambda>r. fold (stitchSale (lookupMap us) (lookupMap ps) (lookupMap ss))
                                        populate r) results))
            | _ \<Rightarrow> (sent, Inl StoreError)))"

definition queryArchiveSales ::
  "store \<Rightarrow> refs \<Rightarrow> query \<Rightarrow> archive_opts \<Rightarrow> lookup list \<times> (error + doc list)" where
  "queryArchiveSales saleArchive rs query opts =
     (case execFind saleArchive query (archiveFindOpts opts) of
        Inl e \<Rightarrow> ([], Inl e)
      | Inr results \<Rightarrow>
          if aPopulate opts \<noteq> [] \<and> results \<noteq> []
          then resolveSales rs (aPopulate opts) results
          else ([], Inr results))"

definition countArchiveSales :: "store \<Rightarrow> query \<Rightarrow> error + nat" where
  "countArchiveSales saleArchive query = countDocuments saleArchive query"

text \<open>
  \<^verbatim>\<open>Model.findById(field)\<close>: the identifier a truthy foreign key stands for. The callers
  test the field for truthiness first, so the value at \<open>Unset\<close> is never used.
\<close>

fun refKey :: "ref \<Rightarrow> oid" where
  "refKey (Ref i) = i"
| "refKey (Obj e) = eid e"
| "refKey Unset = 0"

text \<open>The value assigned from a \<^verbatim>\<open>findById\<close>: the entity, or \<^verbatim>\<open>null\<close> when none was found.\<close>

fun toRef :: "entity option \<Rightarrow> ref" where
  "toRef None = Unset"
| "toRef (Some e) = Obj e"

text \<open>\<^verbatim>\<open>popSelect || '...'\<close>.\<close>

definition selectOr :: "pop \<Rightarrow> string \<Rightarrow> string" where
  "selectOr pop dflt = (case popSelect pop of Some s \<Rightarrow> s | None \<Rightarrow> dflt)"

text \<open>
  One awaited \<^verbatim>\<open>findById\<close> on the main database: the lookup is recorded and its outcome
  returned.
\<close>

definition findByIdSent ::
  "refs \<Rightarrow> coll \<Rightarrow> oid \<Rightarrow> string \<Rightarrow> lookup list \<Rightarrow> lookup list \<times> (error + entity option)" where
  "findByIdSent rs c i sel sent = (sent @ [Point c i], findById (rs c) i sel)"

text \<open>
  The \<^verbatim>\<open>if / else if\<close> chain of \<^verbatim>\<open>queryArchivePayments\<close> for one path of one payment:
  one point lookup for the path, and a second one for the product of a dealer request
  that was found and has one.
\<close>

definition populatePayment ::
  "refs \<Rightarrow> pop \<Rightarrow> doc \<Rightarrow> lookup list \<Rightarrow> lookup list \<times> (error + doc)" where
  "populatePayment rs pop resultObj sent =
     (if popPath pop = ''dealer'' \<and> dealer resultObj \<noteq> Unset then
        (case findByIdSent rs UserM (refKey (dealer resultObj)) (selectOr pop ''name email'') sent of
           (sent1, Inl e) \<Rightarrow> (sent1, Inl e)
         | (sent1, Inr found) \<Rightarrow> (sent1, Inr (resultObj\<lparr>dealer := toRef found\<rparr>)))
      else if popPath pop = ''dealerRequest'' \<and> dealerRequest resultObj \<noteq> Unset then
        (case findByIdSent rs DealerRequestM (refKey (dealerRequest resultObj))
                (selectOr pop ''strips status totalAmount paidAmount paymentType product orderGroupId'')
                sent of
           (sent1, Inl e) \<Rightarrow> (sent1, Inl e)
         | (sent1, Inr None) \<Rightarrow> (sent1, Inr (resultObj\<lparr>dealerRequest := Unset\<rparr>))
         | (sent1, Inr (Some dr)) \<Rightarrow>
             if eproduct dr \<noteq> Unset then
               (case findByIdSent rs ProductM (refKey (eproduct dr))
                       ''title image packetPrice packetsPerStrip'' sent1 of
                  (sent2, Inl e) \<Rightarrow> (sent2, Inl e)
                | (sent2, Inr found) \<Rightarrow>
                    (sent2, Inr (resultObj\<lparr>dealerRequest :=
                                   Obj (Entity (eid dr) (payload dr) (toRef found))\<rparr>)))
             else (sent1, Inr (resultObj\<lparr>dealerRequest := Obj dr\<rparr>)))
      else if popPath pop = ''processedBy'' \<and> processedBy resultObj \<noteq> Unset then
        (case findByIdSent rs UserM (refKey (processedBy resultObj)) (selectOr pop ''name email'')
                sent of
           (sent1, Inl e) \<Rightarrow> (sent1, Inl e)
         | (sent1, Inr found) \<Rightarrow> (sent1, Inr (resultObj\<lparr>processedBy := toRef found\<rparr>)))
      else (sent, Inr resultObj))"

text \<open>The same chain of \<^verbatim>\<open>queryArchiveDealerRequests\<close>.\<close>

definition populateRequest ::
  "refs \<Rightarrow> pop \<Rightarrow> doc \<Rightarrow> lookup list \<Rightarrow> lookup list \<times> (error + doc)" where
  "populateRequest rs pop resultObj sent =
     (if popPath pop = ''dealer'' \<and> dealer resultObj \<noteq> Unset then
        (case findByIdSent rs UserM (refKey (dealer resultObj)) (selectOr pop ''name email'') sent of
           (sent1, Inl e) \<Rightarrow> (sent1, Inl e)
         | (sent1, Inr found) \<Rightarrow> (sent1, Inr (resultObj\<lparr>dealer := toRef found\<rparr>)))
      else if popPath pop = ''product'' \<and> productFk resultObj \<noteq> Unset then
        (case findByIdSent rs ProductM (refKey (productFk resultObj))
                (selectOr pop ''title packetPrice initialPacketPrice packetsPerStrip image'') sent of
           (sent1, Inl e) \<Rightarrow> (sent1, Inl e)
         | (sent1, Inr found) \<Rightarrow> (sent1, Inr (resultObj\<lparr>productFk := toRef found\<rparr>)))
      else if popPath pop = ''processedBy'' \<and> processedBy resultObj \<noteq> Unset then
        (case findByIdSent rs UserM (refKey (processedBy resultObj)) (selectOr pop ''name email'')
                sent of
           (sent1, Inl e) \<Rightarrow> (sent1, Inl e)
         | (sent1, Inr found) \<Rightarrow> (sent1, Inr (resultObj\<lparr>processedBy := toRef found\<rparr>)))
      else (sent, Inr resultObj))"

text \<open>
  The two nested loops of the payment and request resolutions, \<^verbatim>\<open>for (const pop of
  populate)\<close> inside \<^verbatim>\<open>for (const result of results)\<close>. Each lookup is awaited before the
  next one is sent, and the first failure ends the function.
\<close>

fun populateEach ::
  "(pop \<Rightarrow> doc \<Rightarrow> lookup list \<Rightarrow> lookup list \<times> (error + doc)) \<Rightarrow> pop list \<Rightarrow> doc \<Rightarrow>
   lookup list \<Rightarrow> lookup list \<times> (error + doc)" where
  "populateEach step [] resultObj sent = (sent, Inr resultObj)"
| "populateEach step (pop # pops) resultObj sent =
     (case step pop resultObj sent of
        (sent1, Inl e) \<Rightarrow> (sent1, Inl e)
      | (sent1, Inr resultObj1) \<Rightarrow> populateEach step pops resultObj1 sent1)"

fun populateAll ::
  "(pop \<Rightarrow> doc \<Rightarrow> lookup list \<Rightarrow> lookup list \<times> (error + doc)) \<Rightarrow> pop list \<Rightarrow> doc list \<Rightarrow>
   lookup list \<Rightarrow> lookup list \<times> (error + doc list)" where
  "populateAll step populate [] sent = (sent, Inr [])"
| "populateAll step populate (result # results) sent =
     (case populateEach step populate result sent of
        (sent1, Inl e) \<Rightarrow> (sent1, Inl e)
      | (sent1, Inr result1) \<Rightarrow>
          (case populateAll step populate results sent1 of
             (sent2, Inl e) \<Rightarrow> (sent2, Inl e)
           | (sent2, Inr results1) \<Rightarrow> (sent2, Inr (result1 # results1))))"

definition queryArchivePayments ::
  "store \<Rightarrow> refs \<Rightarrow> query \<Rightarrow> archive_opts \<Rightarrow> lookup list \<times> (error + doc list)" where
  "queryArchivePayments paymentArchive rs query opts =
     (case execFind paymentArchive query (archiveFindOpts opts) of
        Inl e \<Rightarrow> ([], Inl e)
      | Inr results \<Rightarrow>
          if aPopulate opts \<noteq> [] \<and> results \<noteq> []
          then populateAll (populatePayment rs) (aPopulate opts) results []
          else ([], Inr results))"

definition countArchivePayments :: "store \<Rightarrow> query \<Rightarrow> error + nat" where
  "countArchivePayments paymentArchive query = countDocuments paymentArchive query"

definition queryArchiveDealerRequests ::
  "store \<Rightarrow> refs \<Rightarrow> query \<Rightarrow> archive_opts \<Rightarrow> lookup list \<times> (error + doc list)" where
  "queryArchiveDealerRequests dealerRequestArchive rs query opts =
     (case execFind dealerRequestArchive query (archiveFindOpts opts) of
        Inl e \<Rightarrow> ([], Inl e)
      | Inr results \<Rightarrow>
          if aPopulate opts \<noteq> [] \<and> results \<noteq> []
          then populateAll (populateRequest rs) (aPopulate opts) results []
          else ([], Inr results))"

definition countArchiveDealerRequests :: "store \<Rightarrow> query \<Rightarrow> error + nat" where
  "countArchiveDealerRequests dealerRequestArchive query =
     countDocuments dealerRequestArchive query"

text \<open>
  \<^verbatim>\<open>normalizeArchiveRecord\<close>: a copy of the record in which \<^verbatim>\<open>_originalId\<close> (here
  \<open>originalIdCopy\<close>) is set from \<^verbatim>\<open>originalId\<close> when it has none.
\<close>

definition normalizeArchiveRecord :: "doc \<Rightarrow> doc" where
  "normalizeArchiveRecord record =
     (if originalId record \<noteq> None \<and> originalIdCopy record = None
      then record\<lparr>originalIdCopy := originalId record\<rparr>
      else record)"

section \<open>The federated queries\<close>

record options =
  populate :: "pop list"
  sortSpec :: "sort_spec option"
  skip :: nat
  limit :: nat
  lean :: bool

record page =
  data :: "doc list"
  total :: nat
  fromPrimary :: nat
  fromArchive :: nat
  primaryCount :: nat
  archiveCount :: nat

text \<open>
  \<^verbatim>\<open>queryUnifiedSales\<close>, \<^verbatim>\<open>queryUnifiedPayments\<close> and \<^verbatim>\<open>queryUnifiedDealerRequests\<close> are
  the same text but for the model they query, the fields their date range is read from,
  the archive functions they call and the key of their re-sort. These four are
  functions of the record kind here, and the common text is \<open>queryUnified\<close>.
\<close>

datatype kind = SaleK | PaymentK | RequestK

text \<open>
  \<^verbatim>\<open>extractDateRange(query, 'saleDate')\<close> for sales; \<^verbatim>\<open>extractDateRange(query, f) ||
  extractDateRange(query, 'createdAt')\<close> for payments and requests (a range object is
  truthy, \<^verbatim>\<open>null\<close> is not).
\<close>

fun kindRange :: "kind \<Rightarrow> query \<Rightarrow> date_range option" where
  "kindRange SaleK query = extractDateRange query ''saleDate''"
| "kindRange PaymentK query =
     (case extractDateRange query ''transactionDate'' of
        Some r \<Rightarrow> Some r | None \<Rightarrow> extractDateRange query ''createdAt'')"
| "kindRange RequestK query =
     (case extractDateRange query ''requestedAt'' of
        Some r \<Rightarrow> Some r | None \<Rightarrow> extractDateRange query ''createdAt'')"

text \<open>
  The date the comparator of the re-sort reads, \<^verbatim>\<open>new Date(a.saleDate || a.createdAt)\<close>
  for sales.
\<close>

fun mergeKey :: "kind \<Rightarrow> doc \<Rightarrow> date" where
  "mergeKey SaleK a = (case saleDate a of Some d \<Rightarrow> d | None \<Rightarrow> createdAt a)"
| "mergeKey PaymentK a = (case transactionDate a of Some d \<Rightarrow> d | None \<Rightarrow> createdAt a)"
| "mergeKey RequestK a = (case requestedAt a of Some d \<Rightarrow> d | None \<Rightarrow> createdAt a)"

fun queryArchive ::
  "kind \<Rightarrow> store \<Rightarrow> refs \<Rightarrow> query \<Rightarrow> archive_opts \<Rightarrow> lookup list \<times> (error + doc list)" where
  "queryArchive SaleK = queryArchiveSales"
| "queryArchive PaymentK = queryArchivePayments"
| "queryArchive RequestK = queryArchiveDealerRequests"

fun countArchive :: "kind \<Rightarrow> store \<Rightarrow> query \<Rightarrow> error + nat" where
  "countArchive SaleK = countArchiveSales"
| "countArchive PaymentK = countArchivePayments"
| "countArchive RequestK = countArchiveDealerRequests"

text \<open>
  \<^verbatim>\<open>mergedResults.sort((a, b) => dateB - dateA)\<close>: a stable sort, descending in the key.
\<close>

definition sortDescending :: "(doc \<Rightarrow> date) \<Rightarrow> doc list \<Rightarrow> doc list" where
  "sortDescending key xs = sort_key (\<lambda>a. - key a) xs"

text \<open>
  The \<^verbatim>\<open>try\<close> block of the primary database: the count is awaited first, then the page,
  whose builder is always given the skip and the limit. An exception leaves the
  variables as they are at that moment, so a failed count gives \<open>([], 0)\<close> and a failed
  page fetch keeps the count.
\<close>

definition primaryFindOpts :: "options \<Rightarrow> find_opts" where
  "primaryFindOpts opts =
     \<lparr>fPopulate = populate opts, fSort = sortSpec opts, fSkip = Some (skip opts),
      fLimit = Some (limit opts), fLean = lean opts\<rparr>"

definition primaryTier :: "store \<Rightarrow> query \<Rightarrow> options \<Rightarrow> doc list \<times> nat" where
  "primaryTier hot query opts =
     (case countDocuments hot query of
        Inl e \<Rightarrow> ([], 0)
      | Inr c \<Rightarrow>
          (case execFind hot query (primaryFindOpts opts) of
             Inl e \<Rightarrow> ([], c)
           | Inr results \<Rightarrow> (results, c)))"

text \<open>
  The \<^verbatim>\<open>try\<close> block of the archive database. \<open>archiveOptions\<close> is the options object
  it builds, with \<^verbatim>\<open>archiveLimit\<close> and \<^verbatim>\<open>archiveSkip\<close>. The page is awaited first, then
  the count, then the page is normalized. A failed page fetch gives \<open>([], 0)\<close>; a
  failed count keeps the page as fetched and the count 0.
\<close>

definition archiveOptions :: "bool \<Rightarrow> doc list \<Rightarrow> options \<Rightarrow> archive_opts" where
  "archiveOptions queryPrimary primaryResults opts =
     (let archiveLimit = (if queryPrimary
                          then nat (max 0 (int (limit opts) - int (length primaryResults)))
                          else limit opts);
          archiveSkip = (if queryPrimary \<and> length primaryResults < limit opts then 0
                         else skip opts)
      in \<lparr>aPopulate = populate opts, aSort = sortSpec opts, aSkip = archiveSkip,
          aLimit = Some archiveLimit, aLean = lean opts\<rparr>)"

definition archiveTier ::
  "kind \<Rightarrow> store \<Rightarrow> refs \<Rightarrow> bool \<Rightarrow> doc list \<Rightarrow> query \<Rightarrow> options \<Rightarrow> doc list \<times> nat" where
  "archiveTier k cold rs queryPrimary primaryResults query opts =
     (case snd (queryArchive k cold rs query (archiveOptions queryPrimary primaryResults opts)) of
        Inl e \<Rightarrow> ([], 0)
      | Inr results \<Rightarrow>
          (case countArchive k cold query of
             Inl e \<Rightarrow> (results, 0)
           | Inr c \<Rightarrow> (map normalizeArchiveRecord results, c)))"

text \<open>
  The federated query. \<open>tA\<close> and \<open>tP\<close> are the thresholds read by the two selection
  tests.
\<close>

definition queryUnified ::
  "kind \<Rightarrow> date \<Rightarrow> date \<Rightarrow> store \<Rightarrow> store \<Rightarrow> refs \<Rightarrow> query \<Rightarrow> options \<Rightarrow> page" where
  "queryUnified k tA tP hot cold rs query opts =
     (let dateRange = kindRange k query;
          queryArch = shouldQueryArchive tA (rangeStart dateRange) (rangeEnd dateRange);
          queryPrimary = shouldQueryPrimary tP (rangeStart dateRange) (rangeEnd dateRange);
          primary = (if queryPrimary then primaryTier hot query opts else ([], 0));
          primaryResults = fst primary;
          archive = (if queryArch
                     then archiveTier k cold rs queryPrimary primaryResults query opts
                     else ([], 0));
          archiveResults = fst archive;
          mergedResults = primaryResults @ archiveResults;
          mergedOut = (if queryArch \<and> queryPrimary \<and> mergedResults \<noteq> []
                       then (let sorted = sortDescending (mergeKey k) mergedResults
                             in if length sorted > limit opts then take (limit opts) sorted
                                else sorted)
                       else mergedResults)
      in \<lparr>data = mergedOut,
          total = snd primary + snd archive,
          fromPrimary = length primaryResults,
          fromArchive = length archiveResults,
          primaryCount = snd primary,
          archiveCount = snd archive\<rparr>)"

definition queryUnifiedSales ::
  "date \<Rightarrow> date \<Rightarrow> store \<Rightarrow> store \<Rightarrow> refs \<Rightarrow> query \<Rightarrow> options \<Rightarrow> page" where
  "queryUnifiedSales = queryUnified SaleK"

definition queryUnifiedPayments ::
  "date \<Rightarrow> date \<Rightarrow> store \<Rightarrow> store \<Rightarrow> refs \<Rightarrow> query \<Rightarrow> options \<Rightarrow> page" where
  "queryUnifiedPayments = queryUnified PaymentK"

definition queryUnifiedDealerRequests ::
  "date \<Rightarrow> date \<Rightarrow> store \<Rightarrow> store \<Rightarrow> refs \<Rightarrow> query \<Rightarrow> options \<Rightarrow> page" where
  "queryUnifiedDealerRequests = queryUnified RequestK"

text \<open>
  The defaults of the options of the three federated queries: no population, the
  designated timestamp then \<^verbatim>\<open>createdAt\<close>, both descending, no skip, 50 records, lean.
\<close>

definition defaultOptions :: "kind \<Rightarrow> options" where
  "defaultOptions k =
     \<lparr>populate = [],
      sortSpec = Some (case k of
                         SaleK \<Rightarrow> [(''saleDate'', -1), (''createdAt'', -1)]
                       | PaymentK \<Rightarrow> [(''transactionDate'', -1), (''createdAt'', -1)]
                       | RequestK \<Rightarrow> [(''requestedAt'', -1), (''createdAt'', -1)]),
      skip = 0, limit = 50, lean = True\<rparr>"

section \<open>A collection in memory\<close>

text \<open>
  A store that answers from a list of documents, the way the database does: the
  documents that match every property of the filter, sorted, after the skip, up to the
  limit. \<^verbatim>\<open>.limit(0)\<close> is no limit, as in MongoDB. A date property is read from the
  field of that name, any other property is compared with the scalar fields. Native
  population by the primary models is left out; no property below depends on it.
\<close>

definition fieldDate :: "doc \<Rightarrow> string \<Rightarrow> date option" where
  "fieldDate d f =
     (if f = ''saleDate'' then saleDate d
      else if f = ''transactionDate'' then transactionDate d
      else if f = ''requestedAt'' then requestedAt d
      else if f = ''createdAt'' then Some (createdAt d)
      else None)"

definition condHolds :: "doc \<Rightarrow> string \<Rightarrow> cond \<Rightarrow> bool" where
  "condHolds d f c =
     (case c of
        DateVal x \<Rightarrow> fieldDate d f = Some x
      | OpsObj ops \<Rightarrow> (case fieldDate d f of Some x \<Rightarrow> opsHold ops x | None \<Rightarrow> False)
      | OtherVal s \<Rightarrow> map_of (attrs d) f = Some s)"

definition matches :: "query \<Rightarrow> doc \<Rightarrow> bool" where
  "matches query d = list_all (\<lambda>p. condHolds d (fst p) (snd p)) query"

definition sortByField :: "string \<times> int \<Rightarrow> doc list \<Rightarrow> doc list" where
  "sortByField fd xs =
     (if snd fd < 0 then rev (sort_key (\<lambda>d. fieldDate d (fst fd)) (rev xs))
      else sort_key (\<lambda>d. fieldDate d (fst fd)) xs)"

definition sortDocs :: "sort_spec \<Rightarrow> doc list \<Rightarrow> doc list" where
  "sortDocs spec xs = foldr sortByField spec xs"

definition collectionFind :: "doc list \<Rightarrow> query \<Rightarrow> find_opts \<Rightarrow> doc list" where
  "collectionFind docs query fo =
     (let matched = filter (matches query) docs;
          sorted = (case fSort fo of None \<Rightarrow> matched | Some spec \<Rightarrow> sortDocs spec matched);
          skipped = (case fSkip fo of None \<Rightarrow> sorted | Some n \<Rightarrow> drop n sorted)
      in case fLimit fo of
           None \<Rightarrow> skipped
         | Some n \<Rightarrow> if n = 0 then skipped else take n skipped)"

definition collection :: "doc list \<Rightarrow> store" where
  "collection docs =
     \<lparr>execFind = (\<lambda>query fo. Inr (collectionFind docs query fo)),
      countDocuments = (\<lambda>query. Inr (length (filter (matches query) docs)))\<rparr>"

text \<open>A store that cannot be reached: every operation raises.\<close>

definition unreachable :: store where
  "unreachable = \<lparr>execFind = (\<lambda>query fo. Inl StoreError),
                   countDocuments = (\<lambda>query. Inl StoreError)\<rparr>"

text \<open>The main database holding the given entities in every referenced collection.\<close>

definition entities :: "(coll \<Rightarrow> entity list) \<Rightarrow> refs" where
  "entities es c =
     \<lparr>findIn = (\<lambda>ids sel. Inr (filter (\<lambda>e. eid e \<in> set ids) (es c))),
      findById = (\<lambda>i sel. Inr (find (\<lambda>e. eid e = i) (es c)))\<rparr>"

section \<open>Notions used to state the resolution\<close>

text \<open>
  The identifiers of the truthy foreign keys of one field across a batch; whether a
  lookup is a batch find or a point lookup, and the collection it goes to; whether a
  path is among the requested ones; and a sale whose requested foreign keys have all
  been stitched from the three maps.
\<close>

definition keysOf :: "(doc \<Rightarrow> ref) \<Rightarrow> doc list \<Rightarrow> oid set" where
  "keysOf field results = set (map (\<lambda>r. refKey (field r)) (filter (\<lambda>r. field r \<noteq> Unset) results))"

fun isBatch :: "lookup \<Rightarrow> bool" where
  "isBatch (Batch c ids) = True"
| "isBatch (Point c i) = False"

fun isPoint :: "lookup \<Rightarrow> bool" where
  "isPoint (Point c i) = True"
| "isPoint (Batch c ids) = False"

fun lookupColl :: "lookup \<Rightarrow> coll" where
  "lookupColl (Batch c ids) = c"
| "lookupColl (Point c i) = c"

definition stitched ::
  "pop list \<Rightarrow> (oid \<Rightarrow> entity option) \<Rightarrow> (oid \<Rightarrow> entity option) \<Rightarrow>
   (oid \<Rightarrow> entity option) \<Rightarrow> doc \<Rightarrow> doc" where
  "stitched pops userMap productMap shopkeeperMap r =
     r\<lparr>salesman := (if ''salesman'' \<in> set (map popPath pops) then stitch userMap (salesman r)
                     else salesman r),
       dealer := (if ''dealer'' \<in> set (map popPath pops) then stitch userMap (dealer r)
                  else dealer r),
       productFk := (if ''product'' \<in> set (map popPath pops) then stitch productMap (productFk r)
                     else productFk r),
       shopkeeper := (if ''shopkeeper'' \<in> set (map popPath pops)
                      then stitch shopkeeperMap (shopkeeper r) else shopkeeper r)\<rparr>"

definition requested :: "string \<Rightarrow> pop list \<Rightarrow> bool" where
  "requested path pops = (path \<in> set (map popPath pops))"

section \<open>Stores and documents for the examples\<close>

text \<open>
  A collection that answers page fetches and raises on every count, and one that
  answers counts and raises on every page fetch.
\<close>

definition countFails :: "doc list \<Rightarrow> store" where
  "countFails docs = (collection docs)\<lparr>countDocuments := (\<lambda>query. Inl StoreError)\<rparr>"

definition findFails :: "doc list \<Rightarrow> store" where
  "findFails docs = (collection docs)\<lparr>execFind := (\<lambda>query fo. Inl StoreError)\<rparr>"

text \<open>A main database that cannot be reached: every lookup raises.\<close>

definition unreachableRefs :: refs where
  "unreachableRefs c = \<lparr>findIn = (\<lambda>ids sel. Inl StoreError),
                        findById = (\<lambda>i sel. Inl StoreError)\<rparr>"

definition noEntities :: "coll \<Rightarrow> entity list" where
  "noEntities c = []"

text \<open>
  A document with the given identifier whose designated timestamp and creation date
  are the given date, with no foreign key set.
\<close>

definition exampleDoc :: "oid \<Rightarrow> date \<Rightarrow> doc" where
  "exampleDoc i d =
     \<lparr>ident = i, saleDate = Some d, transactionDate = Some d, requestedAt = Some d,
      createdAt = d, salesman = Unset, dealer = Unset, productFk = Unset, shopkeeper = Unset,
      dealerRequest = Unset, processedBy = Unset, originalId = None, originalIdCopy = None,
      attrs = []\<rparr>"

text \<open>A main database with two users and one product.\<close>

definition exampleEntities :: "coll \<Rightarrow> entity list" where
  "exampleEntities c =
     (case c of
        UserM \<Rightarrow> [Entity 7 ''user 7'' Unset, Entity 8 ''user 8'' Unset]
      | ProductM \<Rightarrow> [Entity 3 ''product 3'' Unset]
      | ShopkeeperM \<Rightarrow> []
      | DealerRequestM \<Rightarrow> [])"


section \<open>Properties of the planner\<close>

text \<open>
  C3: for every start, end and threshold, the Cold tier is selected exactly when both
  bounds are unset, or the end is set and before the threshold, or the start is set and
  before the threshold; the Hot tier is selected exactly when both bounds are unset, or
  the start is set and at or after the threshold, or the end is set and at or after the
  threshold.
\<close>

theorem C3_tier_selection:
  "(shouldQueryArchive T s e =
      ((s = None \<and> e = None) \<or> (\<exists>x. e = Some x \<and> x < T) \<or> (\<exists>x. s = Some x \<and> x < T))) \<and>
   (shouldQueryPrimary T s e =
      ((s = None \<and> e = None) \<or> (\<exists>x. s = Some x \<and> x \<ge> T) \<or> (\<exists>x. e = Some x \<and> x \<ge> T)))"
  by (cases s; cases e) (auto simp: shouldQueryArchive_def shouldQueryPrimary_def)

text \<open>
  On valid dates the functions on JavaScript values are the functions of the first
  sections.
\<close>

lemma selectors_on_valid_dates:
  "shouldQueryArchive T s e = shouldQueryArchiveJS T (map_option Valid s) (map_option Valid e)"
  "shouldQueryPrimary T s e = shouldQueryPrimaryJS T (map_option Valid s) (map_option Valid e)"
  by (cases s; cases e;
      simp add: shouldQueryArchive_def shouldQueryArchiveJS_def shouldQueryPrimary_def
        shouldQueryPrimaryJS_def jsLess_def jsGreaterEq_def)+

lemma extractor_on_valid_dates:
  "extractDateRangeJS (map (\<lambda>p. (fst p, validCond (snd p))) query) f =
     map_option validRange (extractDateRange query f)"
proof -
  have m: "map_of (map (\<lambda>p. (fst p, validCond (snd p))) query) f =
      map_option validCond (map_of query f)"
    by (induction query) auto
  show ?thesis
    unfolding extractDateRangeJS_def extractDateRange_def m
    by (auto simp: validRange_def validOps_def Let_def split: option.splits cond.splits)
qed

text \<open>
  C9 as stated (at least one tier is selected for every combination of set and unset
  bounds) fails for a bound that is set to an invalid date. The filter
  \<^verbatim>\<open>{ saleDate: { $gte: operand } }\<close> with an operand that \<^verbatim>\<open>new Date\<close> cannot read as a
  date has the start set to an invalid date and no end; the start is neither before
  the threshold nor at or after it, and both selectors return false.
\<close>

theorem C9_no_tier_counterexample:
  "extractDateRangeJS
     [(''saleDate'', JSOps \<lparr>gteJS = Some (NonDate Invalid), lteJS = None, gtJS = None, ltJS = None\<rparr>)]
     ''saleDate'' = Some \<lparr>startDateJS = Some Invalid, endDateJS = None\<rparr> \<and>
   shouldQueryArchiveJS 10 (Some Invalid) None = False \<and>
   shouldQueryPrimaryJS 10 (Some Invalid) None = False"
  by code_simp

text \<open>
  C9 as amended. For the same range and the same threshold, at least one of the two
  tiers is selected exactly when no bound is set or a bound is set to a valid date; so
  no tier is selected exactly when a bound is set and every bound that is set is an
  invalid date. In particular at least one tier is selected for every combination of
  set and unset bounds that are valid dates, where the selectors are the functions on
  time values of the first sections.
\<close>

theorem C9_some_tier_unless_invalid:
  "((shouldQueryArchiveJS T s e \<or> shouldQueryPrimaryJS T s e) =
      ((s = None \<and> e = None) \<or> (\<exists>x. s = Some (Valid x)) \<or> (\<exists>x. e = Some (Valid x)))) \<and>
   (shouldQueryArchiveJS T (map_option Valid a) (map_option Valid b) \<or>
    shouldQueryPrimaryJS T (map_option Valid a) (map_option Valid b)) \<and>
   shouldQueryArchive T a b = shouldQueryArchiveJS T (map_option Valid a) (map_option Valid b) \<and>
   shouldQueryPrimary T a b = shouldQueryPrimaryJS T (map_option Valid a) (map_option Valid b) \<and>
   (shouldQueryArchive T a b \<or> shouldQueryPrimary T a b)"
proof -
  have 1: "(shouldQueryArchiveJS T s e \<or> shouldQueryPrimaryJS T s e) =
      ((s = None \<and> e = None) \<or> (\<exists>x. s = Some (Valid x)) \<or> (\<exists>x. e = Some (Valid x)))"
  proof (cases s)
    case None
    then show ?thesis
    proof (cases e)
      case None
      with \<open>s = None\<close> show ?thesis
        by (simp add: shouldQueryArchiveJS_def)
    next
      case (Some y)
      with \<open>s = None\<close> show ?thesis
        by (cases y) (auto simp: shouldQueryArchiveJS_def shouldQueryPrimaryJS_def jsLess_def
            jsGreaterEq_def)
    qed
  next
    case (Some x)
    show ?thesis
    proof (cases e)
      case None
      with Some show ?thesis
        by (cases x) (auto simp: shouldQueryArchiveJS_def shouldQueryPrimaryJS_def jsLess_def
            jsGreaterEq_def)
    next
      case (Some y)
      with \<open>s = Some x\<close> show ?thesis
        by (cases x; cases y) (auto simp: shouldQueryArchiveJS_def shouldQueryPrimaryJS_def
            jsLess_def jsGreaterEq_def)
    qed
  qed
  have 2: "shouldQueryArchiveJS T (map_option Valid a) (map_option Valid b) \<or>
    shouldQueryPrimaryJS T (map_option Valid a) (map_option Valid b)"
    by (cases a; cases b)
       (auto simp: shouldQueryArchiveJS_def shouldQueryPrimaryJS_def jsLess_def jsGreaterEq_def)
  show ?thesis
    using 1 2 selectors_on_valid_dates [of T a b] by blast
qed

text \<open>
  C1: when the extracted range has both a start and an end and both tiers are selected,
  the hot sub-filter is \<^verbatim>\<open>{ $gte: max(start, threshold), $lte: end }\<close> and the cold
  sub-filter is \<^verbatim>\<open>{ $gte: start, $lt: min(end, threshold) }\<close>. The hot lower bound is at
  or after the threshold, the cold upper bound is at most the threshold and strict, so
  a date the hot sub-filter accepts is at or after the threshold, a date the cold
  sub-filter accepts is before it, and no date is accepted by both.
\<close>

theorem C1_split_both_bounds:
  assumes "extractDateRange query f = Some \<lparr>startDate = Some s, endDate = Some e\<rparr>"
    and "shouldQueryArchive tA (Some s) (Some e)"
    and "shouldQueryPrimary tP (Some s) (Some e)"
  shows "map_of (primaryQuery (splitQueryByDate tA tP tS tA2 query f)) f =
           Some (OpsObj \<lparr>gte = Some (max s tS), lte = Some e, gt = None, lt = None\<rparr>) \<and>
         map_of (archiveQuery (splitQueryByDate tA tP tS tA2 query f)) f =
           Some (OpsObj \<lparr>gte = Some s, lte = None, gt = None, lt = Some (min e tS)\<rparr>) \<and>
         queryBoth (splitQueryByDate tA tP tS tA2 query f) \<and>
         tS \<le> max s tS \<and> min e tS \<le> tS \<and>
         (\<forall>d. opsHold \<lparr>gte = Some (max s tS), lte = Some e, gt = None, lt = None\<rparr> d
                \<longrightarrow> tS \<le> d) \<and>
         (\<forall>d. opsHold \<lparr>gte = Some s, lte = None, gt = None, lt = Some (min e tS)\<rparr> d
                \<longrightarrow> d < tS) \<and>
         (\<forall>d. \<not> (opsHold \<lparr>gte = Some (max s tS), lte = Some e, gt = None, lt = None\<rparr> d \<and>
                  opsHold \<lparr>gte = Some s, lte = None, gt = None, lt = Some (min e tS)\<rparr> d))"
proof -
  have hot: "(if s < tS then tS else s) = max s tS" and cold: "(if e < tS then e else tS) = min e tS"
    by (simp_all add: max_def min_def)
  have split: "splitQueryByDate tA tP tS tA2 query f =
      \<lparr>primaryQuery = AList.update f
         (OpsObj \<lparr>gte = Some (max s tS), lte = Some e, gt = None, lt = None\<rparr>) query,
       archiveQuery = AList.update f
         (OpsObj \<lparr>gte = Some s, lte = None, gt = None, lt = Some (min e tS)\<rparr>) query,
       queryBoth = True\<rparr>"
    using assms by (simp add: splitQueryByDate_def rangeStart_def rangeEnd_def noOps_def hot cold)
  show ?thesis
    unfolding split by (auto simp: AList.update_conv' opsHold_def)
qed

theorem C1_split_both_bounds_witness:
  "extractDateRange [(''saleDate'', OpsObj \<lparr>gte = Some 5, lte = Some 20, gt = None, lt = None\<rparr>)]
     ''saleDate'' = Some \<lparr>startDate = Some 5, endDate = Some 20\<rparr> \<and>
   shouldQueryArchive 10 (Some 5) (Some 20) \<and> shouldQueryPrimary 10 (Some 5) (Some 20) \<and>
   map_of (primaryQuery (splitQueryByDate 10 10 10 10
      [(''saleDate'', OpsObj \<lparr>gte = Some 5, lte = Some 20, gt = None, lt = None\<rparr>)] ''saleDate''))
      ''saleDate'' = Some (OpsObj \<lparr>gte = Some 10, lte = Some 20, gt = None, lt = None\<rparr>) \<and>
   map_of (archiveQuery (splitQueryByDate 10 10 10 10
      [(''saleDate'', OpsObj \<lparr>gte = Some 5, lte = Some 20, gt = None, lt = None\<rparr>)] ''saleDate''))
      ''saleDate'' = Some (OpsObj \<lparr>gte = Some 5, lte = None, gt = None, lt = Some 10\<rparr>)"
proof -
  have h1: "extractDateRange
      [(''saleDate'', OpsObj \<lparr>gte = Some 5, lte = Some 20, gt = None, lt = None\<rparr>)]
      ''saleDate'' = Some \<lparr>startDate = Some 5, endDate = Some 20\<rparr>"
    by (simp add: extractDateRange_def)
  have h2: "shouldQueryArchive 10 (Some 5) (Some 20)"
    by (simp add: shouldQueryArchive_def)
  have h3: "shouldQueryPrimary 10 (Some 5) (Some 20)"
    by (simp add: shouldQueryPrimary_def)
  show ?thesis
    using C1_split_both_bounds [OF h1 h2 h3, of 10 10] h1 h2 h3 by simp
qed

text \<open>
  C7 as stated (a strict bound of the filter stays strict in the sub-filters of the
  split) fails: with the threshold at 10, the filter \<^verbatim>\<open>{ $gt: 5, $lt: 20 }\<close>
  selects both tiers and is split into \<^verbatim>\<open>{ $gte: 10, $lte: 20 }\<close> for Hot and
  \<^verbatim>\<open>{ $gte: 5, $lt: 10 }\<close> for Cold. The strict upper bound 20 has become inclusive in
  the hot sub-filter (the date 20 is accepted there, and not by the original filter) and
  the strict lower bound 5 has become inclusive in the cold one.
\<close>

theorem C7_exclusivity_counterexample:
  "map_of (primaryQuery (splitQueryByDate 10 10 10 10
      [(''saleDate'', OpsObj \<lparr>gte = None, lte = None, gt = Some 5, lt = Some 20\<rparr>)] ''saleDate''))
      ''saleDate'' = Some (OpsObj \<lparr>gte = Some 10, lte = Some 20, gt = None, lt = None\<rparr>) \<and>
   map_of (archiveQuery (splitQueryByDate 10 10 10 10
      [(''saleDate'', OpsObj \<lparr>gte = None, lte = None, gt = Some 5, lt = Some 20\<rparr>)] ''saleDate''))
      ''saleDate'' = Some (OpsObj \<lparr>gte = Some 5, lte = None, gt = None, lt = Some 10\<rparr>) \<and>
   \<not> opsHold \<lparr>gte = None, lte = None, gt = Some 5, lt = Some 20\<rparr> 20 \<and>
   opsHold \<lparr>gte = Some 10, lte = Some 20, gt = None, lt = None\<rparr> 20 \<and>
   \<not> opsHold \<lparr>gte = None, lte = None, gt = Some 5, lt = Some 20\<rparr> 5 \<and>
   opsHold \<lparr>gte = Some 5, lte = None, gt = None, lt = Some 10\<rparr> 5"
  by (simp add: splitQueryByDate_def extractDateRange_def rangeStart_def rangeEnd_def
      shouldQueryArchive_def shouldQueryPrimary_def noOps_def opsHold_def)

text \<open>
  C7 as amended. The extractor keeps the values of the bounds and not their operators:
  the start is the value of \<^verbatim>\<open>$gt\<close> when given and of \<^verbatim>\<open>$gte\<close> otherwise, the end the
  value of \<^verbatim>\<open>$lt\<close> when given and of \<^verbatim>\<open>$lte\<close> otherwise. When both tiers are selected
  and a bound is set, the split writes a new sub-predicate from these values alone: the
  hot one has \<^verbatim>\<open>$gte: max(start, threshold)\<close> when the start is set and \<^verbatim>\<open>$lte: end\<close>
  when the end is set, the cold one has \<^verbatim>\<open>$lt: min(end, threshold)\<close> (the threshold
  when the end is unset) and \<^verbatim>\<open>$gte: start\<close> when both bounds are set; neither has
  \<^verbatim>\<open>$gt\<close>, the hot one has no \<^verbatim>\<open>$lt\<close> and the cold one no \<^verbatim>\<open>$lte\<close>, whatever the
  operators of the original filter. When one tier only is selected, the sub-filter of
  the selected tier is the original filter, operators included.
\<close>

theorem C7_split_operators:
  assumes "map_of query f = Some (OpsObj ops)"
  shows "extractDateRange query f =
           Some \<lparr>startDate = (case gt ops of Some v \<Rightarrow> Some v | None \<Rightarrow> gte ops),
                 endDate = (case lt ops of Some v \<Rightarrow> Some v | None \<Rightarrow> lte ops)\<rparr> \<and>
         (\<forall>r. extractDateRange query f = Some r \<and>
               queryBoth (splitQueryByDate tA tP tS tA2 query f) \<and>
               (startDate r \<noteq> None \<or> endDate r \<noteq> None) \<longrightarrow>
            map_of (primaryQuery (splitQueryByDate tA tP tS tA2 query f)) f =
              Some (OpsObj \<lparr>gte = map_option (\<lambda>s. max s tS) (startDate r), lte = endDate r,
                             gt = None, lt = None\<rparr>) \<and>
            map_of (archiveQuery (splitQueryByDate tA tP tS tA2 query f)) f =
              Some (OpsObj \<lparr>gte = (if endDate r = None then None else startDate r), lte = None,
                             gt = None,
                             lt = Some (case endDate r of Some e \<Rightarrow> min e tS | None \<Rightarrow> tS)\<rparr>)) \<and>
         (\<not> queryBoth (splitQueryByDate tA tP tS tA2 query f) \<longrightarrow>
            (if shouldQueryArchive tA2 (rangeStart (extractDateRange query f))
                  (rangeEnd (extractDateRange query f))
             then archiveQuery (splitQueryByDate tA tP tS tA2 query f) = query
             else primaryQuery (splitQueryByDate tA tP tS tA2 query f) = query))"
proof -
  have ex: "extractDateRange query f =
           Some \<lparr>startDate = (case gt ops of Some v \<Rightarrow> Some v | None \<Rightarrow> gte ops),
                 endDate = (case lt ops of Some v \<Rightarrow> Some v | None \<Rightarrow> lte ops)\<rparr>"
    using assms by (simp add: extractDateRange_def split: option.splits)
  have hot: "\<And>s. (if s < tS then tS else s) = max s tS"
    and cold: "\<And>e. (if e < tS then e else tS) = min e tS"
    by (simp_all add: max_def min_def)
  have both: "\<forall>r. extractDateRange query f = Some r \<and>
               queryBoth (splitQueryByDate tA tP tS tA2 query f) \<and>
               (startDate r \<noteq> None \<or> endDate r \<noteq> None) \<longrightarrow>
            map_of (primaryQuery (splitQueryByDate tA tP tS tA2 query f)) f =
              Some (OpsObj \<lparr>gte = map_option (\<lambda>s. max s tS) (startDate r), lte = endDate r,
                             gt = None, lt = None\<rparr>) \<and>
            map_of (archiveQuery (splitQueryByDate tA tP tS tA2 query f)) f =
              Some (OpsObj \<lparr>gte = (if endDate r = None then None else startDate r), lte = None,
                             gt = None,
                             lt = Some (case endDate r of Some e \<Rightarrow> min e tS | None \<Rightarrow> tS)\<rparr>)"
  proof (intro allI impI)
    fix r
    assume a: "extractDateRange query f = Some r \<and>
               queryBoth (splitQueryByDate tA tP tS tA2 query f) \<and>
               (startDate r \<noteq> None \<or> endDate r \<noteq> None)"
    then have b: "shouldQueryArchive tA (startDate r) (endDate r) \<and>
                  shouldQueryPrimary tP (startDate r) (endDate r)"
      by (auto simp: splitQueryByDate_def rangeStart_def rangeEnd_def Let_def
          split: if_splits option.splits)
    show "map_of (primaryQuery (splitQueryByDate tA tP tS tA2 query f)) f =
              Some (OpsObj \<lparr>gte = map_option (\<lambda>s. max s tS) (startDate r), lte = endDate r,
                             gt = None, lt = None\<rparr>) \<and>
            map_of (archiveQuery (splitQueryByDate tA tP tS tA2 query f)) f =
              Some (OpsObj \<lparr>gte = (if endDate r = None then None else startDate r), lte = None,
                             gt = None,
                             lt = Some (case endDate r of Some e \<Rightarrow> min e tS | None \<Rightarrow> tS)\<rparr>)"
      using a b
      by (cases "startDate r"; cases "endDate r")
         (simp_all add: splitQueryByDate_def rangeStart_def rangeEnd_def noOps_def hot cold
            AList.update_conv')
  qed
  have one: "\<not> queryBoth (splitQueryByDate tA tP tS tA2 query f) \<longrightarrow>
            (if shouldQueryArchive tA2 (rangeStart (extractDateRange query f))
                  (rangeEnd (extractDateRange query f))
             then archiveQuery (splitQueryByDate tA tP tS tA2 query f) = query
             else primaryQuery (splitQueryByDate tA tP tS tA2 query f) = query)"
    by (simp add: splitQueryByDate_def ex rangeStart_def rangeEnd_def Let_def
        split: option.splits)
  show ?thesis using ex both one by blast
qed

theorem C7_split_operators_witness:
  "map_of [(''saleDate'', OpsObj \<lparr>gte = None, lte = None, gt = Some 5, lt = Some 20\<rparr>)] ''saleDate''
     = Some (OpsObj \<lparr>gte = None, lte = None, gt = Some 5, lt = Some 20\<rparr>) \<and>
   extractDateRange [(''saleDate'', OpsObj \<lparr>gte = None, lte = None, gt = Some 5, lt = Some 20\<rparr>)]
     ''saleDate'' = Some \<lparr>startDate = Some 5, endDate = Some 20\<rparr> \<and>
   queryBoth (splitQueryByDate 10 10 10 10
     [(''saleDate'', OpsObj \<lparr>gte = None, lte = None, gt = Some 5, lt = Some 20\<rparr>)] ''saleDate'') \<and>
   map_of (primaryQuery (splitQueryByDate 10 10 10 10
      [(''saleDate'', OpsObj \<lparr>gte = None, lte = None, gt = Some 5, lt = Some 20\<rparr>)] ''saleDate''))
      ''saleDate'' = Some (OpsObj \<lparr>gte = Some 10, lte = Some 20, gt = None, lt = None\<rparr>) \<and>
   \<not> queryBoth (splitQueryByDate 10 10 10 10
     [(''saleDate'', OpsObj \<lparr>gte = None, lte = None, gt = Some 5, lt = Some 8\<rparr>)] ''saleDate'') \<and>
   archiveQuery (splitQueryByDate 10 10 10 10
     [(''saleDate'', OpsObj \<lparr>gte = None, lte = None, gt = Some 5, lt = Some 8\<rparr>)] ''saleDate'') =
     [(''saleDate'', OpsObj \<lparr>gte = None, lte = None, gt = Some 5, lt = Some 8\<rparr>)]"
proof -
  let ?q = "[(''saleDate'', OpsObj \<lparr>gte = None, lte = None, gt = Some 5, lt = Some 20\<rparr>)]"
  let ?q' = "[(''saleDate'', OpsObj \<lparr>gte = None, lte = None, gt = Some 5, lt = Some 8\<rparr>)]"
  have m: "map_of ?q ''saleDate'' = Some (OpsObj \<lparr>gte = None, lte = None, gt = Some 5, lt = Some 20\<rparr>)"
    by simp
  have m': "map_of ?q' ''saleDate'' = Some (OpsObj \<lparr>gte = None, lte = None, gt = Some 5, lt = Some 8\<rparr>)"
    by simp
  have b: "queryBoth (splitQueryByDate 10 10 10 10 ?q ''saleDate'')"
    by (simp add: splitQueryByDate_def extractDateRange_def rangeStart_def rangeEnd_def
        shouldQueryArchive_def shouldQueryPrimary_def noOps_def)
  have nb: "\<not> queryBoth (splitQueryByDate 10 10 10 10 ?q' ''saleDate'')"
    by (simp add: splitQueryByDate_def extractDateRange_def rangeStart_def rangeEnd_def
        shouldQueryArchive_def shouldQueryPrimary_def noOps_def)
  have e: "extractDateRange ?q ''saleDate'' = Some \<lparr>startDate = Some 5, endDate = Some 20\<rparr>"
    by (simp add: extractDateRange_def)
  have e': "shouldQueryArchive 10 (rangeStart (extractDateRange ?q' ''saleDate''))
              (rangeEnd (extractDateRange ?q' ''saleDate''))"
    by (simp add: extractDateRange_def rangeStart_def rangeEnd_def shouldQueryArchive_def)
  show ?thesis
    using C7_split_operators [OF m, of 10 10 10 10] C7_split_operators [OF m', of 10 10 10 10]
      b nb e e' by simp
qed

section \<open>Properties of the federated queries\<close>

subsection \<open>The tiers over particular stores\<close>

lemma queryArchive_find_fails:
  "execFind cold q (archiveFindOpts ao) = Inl e \<Longrightarrow> queryArchive k cold rs q ao = ([], Inl e)"
  by (cases k)
     (simp_all add: queryArchiveSales_def queryArchivePayments_def queryArchiveDealerRequests_def)

lemma countArchive_eq: "countArchive k cold q = countDocuments cold q"
  by (cases k)
     (simp_all add: countArchiveSales_def countArchivePayments_def countArchiveDealerRequests_def)

lemma archiveTier_unreachable: "archiveTier k unreachable rs qp prs q opts = ([], 0)"
  by (simp add: archiveTier_def queryArchive_find_fails unreachable_def)

lemma mset_sortByField: "mset (sortByField fd xs) = mset xs"
  by (simp add: sortByField_def)

lemma mset_sortDocs: "mset (sortDocs spec xs) = mset xs"
  by (induction spec) (simp_all add: sortDocs_def mset_sortByField)

lemma length_sortDocs: "length (sortDocs spec xs) = length xs"
  using mset_sortDocs [of spec xs] by (metis size_mset)

lemma sortDocs_Nil: "sortDocs spec [] = []"
  using length_sortDocs [of spec "[]"] by simp

lemma collectionFind_Nil: "collectionFind [] q fo = []"
  by (simp add: collectionFind_def Let_def sortDocs_Nil split: option.splits)

lemma queryArchive_no_results:
  "execFind cold q (archiveFindOpts ao) = Inr [] \<Longrightarrow> queryArchive k cold rs q ao = ([], Inr [])"
  by (cases k)
     (simp_all add: queryArchiveSales_def queryArchivePayments_def queryArchiveDealerRequests_def)

lemma archiveTier_empty: "archiveTier k (collection []) rs qp prs q opts = ([], 0)"
  by (simp add: archiveTier_def queryArchive_no_results collection_def collectionFind_Nil
      countArchive_eq)

lemma primaryTier_unreachable: "primaryTier unreachable q opts = ([], 0)"
  by (simp add: primaryTier_def unreachable_def)

lemma primaryTier_empty: "primaryTier (collection []) q opts = ([], 0)"
  by (simp add: primaryTier_def collection_def collectionFind_Nil)

lemma resolveSales_entities:
  "\<exists>sent ys. resolveSales (entities es) pops results = (sent, Inr ys) \<and> length ys = length results"
  by (simp add: resolveSales_def entities_def Let_def split: prod.splits)

lemma populatePayment_entities:
  "\<exists>sent1 r1. populatePayment (entities es) pop r sent = (sent1, Inr r1)"
  by (auto simp: populatePayment_def findByIdSent_def entities_def split: option.splits)

lemma populateRequest_entities:
  "\<exists>sent1 r1. populateRequest (entities es) pop r sent = (sent1, Inr r1)"
  by (auto simp: populateRequest_def findByIdSent_def entities_def split: option.splits)

lemma populateEach_ok:
  assumes "\<And>pop r sent. \<exists>sent1 r1. step pop r sent = (sent1, Inr r1)"
  shows "\<exists>sent1 r1. populateEach step pops r sent = (sent1, Inr r1)"
proof (induction pops arbitrary: r sent)
  case Nil
  show ?case by simp
next
  case (Cons pop pops)
  obtain sent1 r1 where "step pop r sent = (sent1, Inr r1)" using assms by blast
  then show ?case using Cons.IH [of r1 sent1] by simp
qed

lemma populateAll_ok:
  assumes "\<And>pop r sent. \<exists>sent1 r1. step pop r sent = (sent1, Inr r1)"
  shows "\<exists>sent1 ys. populateAll step pops results sent = (sent1, Inr ys) \<and>
           length ys = length results"
proof (induction results arbitrary: sent)
  case Nil
  show ?case by simp
next
  case (Cons r results)
  obtain sent1 r1 where a: "populateEach step pops r sent = (sent1, Inr r1)"
    using populateEach_ok [of step pops r sent] assms by blast
  obtain sent2 ys where b: "populateAll step pops results sent1 = (sent2, Inr ys)"
    and c: "length ys = length results"
    using Cons.IH [of sent1] by blast
  show ?case using a b c by simp
qed

lemma queryArchive_collection:
  "\<exists>ys. snd (queryArchive k (collection cs) (entities es) q ao) = Inr ys \<and>
        length ys = length (collectionFind cs q (archiveFindOpts ao))"
proof (cases k)
  case SaleK
  then show ?thesis
    using resolveSales_entities [of es "aPopulate ao" "collectionFind cs q (archiveFindOpts ao)"]
    by (auto simp: queryArchiveSales_def collection_def)
next
  case PaymentK
  then show ?thesis
    using populateAll_ok [of "populatePayment (entities es)" "aPopulate ao"
        "collectionFind cs q (archiveFindOpts ao)" "[]", OF populatePayment_entities]
    by (auto simp: queryArchivePayments_def collection_def)
next
  case RequestK
  then show ?thesis
    using populateAll_ok [of "populateRequest (entities es)" "aPopulate ao"
        "collectionFind cs q (archiveFindOpts ao)" "[]", OF populateRequest_entities]
    by (auto simp: queryArchiveDealerRequests_def collection_def)
qed

lemma archiveTier_collection:
  "snd (archiveTier k (collection cs) (entities es) qp prs q opts) = length (filter (matches q) cs) \<and>
   length (fst (archiveTier k (collection cs) (entities es) qp prs q opts)) =
     length (collectionFind cs q (archiveFindOpts (archiveOptions qp prs opts)))"
proof -
  obtain ys where a: "snd (queryArchive k (collection cs) (entities es) q
                            (archiveOptions qp prs opts)) = Inr ys"
    and b: "length ys = length (collectionFind cs q (archiveFindOpts (archiveOptions qp prs opts)))"
    using queryArchive_collection by blast
  have c: "countArchive k (collection cs) q = Inr (length (filter (matches q) cs))"
    by (simp add: countArchive_eq collection_def)
  show ?thesis
    unfolding archiveTier_def using a b c by simp
qed

lemma primaryTier_collection:
  "primaryTier (collection hs) q opts =
     (collectionFind hs q (primaryFindOpts opts), length (filter (matches q) hs))"
  by (simp add: primaryTier_def collection_def)

lemma primaryTier_count_fails:
  "countDocuments hot q = Inl e \<Longrightarrow> primaryTier hot q opts = ([], 0)"
  by (simp add: primaryTier_def)

lemma primaryTier_find_fails:
  "countDocuments hot q = Inr c \<Longrightarrow> execFind hot q (primaryFindOpts opts) = Inl e \<Longrightarrow>
   primaryTier hot q opts = ([], c)"
  by (simp add: primaryTier_def)

lemma archiveTier_fetch_fails:
  "snd (queryArchive k cold rs q (archiveOptions qp prs opts)) = Inl e \<Longrightarrow>
   archiveTier k cold rs qp prs q opts = ([], 0)"
  by (simp add: archiveTier_def)

lemma archiveTier_count_fails:
  "snd (queryArchive k cold rs q (archiveOptions qp prs opts)) = Inr ys \<Longrightarrow>
   countDocuments cold q = Inl e \<Longrightarrow> archiveTier k cold rs qp prs q opts = (ys, 0)"
  by (simp add: archiveTier_def countArchive_eq)

lemma queryUnified_data:
  "data (queryUnified k tA tP hot cold rs q opts) =
     (let qa = shouldQueryArchive tA (rangeStart (kindRange k q)) (rangeEnd (kindRange k q));
          qp = shouldQueryPrimary tP (rangeStart (kindRange k q)) (rangeEnd (kindRange k q));
          pr = (if qp then fst (primaryTier hot q opts) else []);
          ar = (if qa then fst (archiveTier k cold rs qp pr q opts) else [])
      in if qa \<and> qp then take (limit opts) (sortDescending (mergeKey k) (pr @ ar)) else pr @ ar)"
  by (simp add: queryUnified_def Let_def sortDescending_def)

lemma length_collectionFind_no_limit:
  "fLimit fo = None \<Longrightarrow>
   length (collectionFind cs q fo) =
     length (filter (matches q) cs) - (case fSkip fo of None \<Rightarrow> 0 | Some n \<Rightarrow> n)"
  by (simp add: collectionFind_def Let_def length_sortDocs split: option.splits)

lemma archiveOptions_full_page:
  "length prs = limit opts \<Longrightarrow>
   aLimit (archiveOptions True prs opts) = Some 0 \<and>
   aSkip (archiveOptions True prs opts) = skip opts \<and>
   fLimit (archiveFindOpts (archiveOptions True prs opts)) = None \<and>
   fSkip (archiveFindOpts (archiveOptions True prs opts)) =
     (if skip opts \<noteq> 0 then Some (skip opts) else None)"
  by (simp add: archiveOptions_def archiveFindOpts_def Let_def)

subsection \<open>Totals\<close>

text \<open>
  C4 as stated (each count is the matched-count of its tier, independent of the skip and
  the limit) fails for the archive count, which is awaited only after the page fetch
  and its reference lookups have answered. One archived sale matches a filter that
  selects Cold only, a reference is requested and the main database cannot be reached.
  With a skip of 0 the page holds the sale, its lookup raises and the count is never
  asked: the total is 0. With a skip of 1 the page is empty, no lookup is sent and the
  count is asked: the total is 1.
\<close>

theorem C4_total_depends_on_skip_counterexample:
  "length (filter (matches [(''saleDate'', OpsObj \<lparr>gte = None, lte = Some 8, gt = None, lt = None\<rparr>)])
     [(exampleDoc 1 5)\<lparr>salesman := Ref 7\<rparr>]) = 1 \<and>
   total (queryUnifiedSales 10 10 (collection []) (collection [(exampleDoc 1 5)\<lparr>salesman := Ref 7\<rparr>])
     unreachableRefs [(''saleDate'', OpsObj \<lparr>gte = None, lte = Some 8, gt = None, lt = None\<rparr>)]
     ((defaultOptions SaleK)\<lparr>populate := [PopStr ''salesman''], skip := 0\<rparr>)) = 0 \<and>
   total (queryUnifiedSales 10 10 (collection []) (collection [(exampleDoc 1 5)\<lparr>salesman := Ref 7\<rparr>])
     unreachableRefs [(''saleDate'', OpsObj \<lparr>gte = None, lte = Some 8, gt = None, lt = None\<rparr>)]
     ((defaultOptions SaleK)\<lparr>populate := [PopStr ''salesman''], skip := 1\<rparr>)) = 1"
  by code_simp

text \<open>
  C4 as amended, for every behaviour of the stores. The total is
  \<open>primaryCount + archiveCount\<close>. \<open>primaryCount\<close> is what the count of the Hot store
  answers for the caller's filter when Hot is queried, and 0 when Hot is not queried or
  its count raises; it does not change with the skip or the limit. \<open>archiveCount\<close> is
  what the count of the Cold store answers for the same filter when Cold is queried
  and the page fetch before it, with its reference lookups, has answered, and 0 when
  Cold is not queried, the page fetch raises or the count raises. Over two collections
  and a main database that answer, the count of a tier that is queried is the number
  of documents of that collection that match the filter, and neither count nor the
  total changes with the skip or the limit.
\<close>

theorem C4_total_is_sum_of_counts:
  "total (queryUnified k tA tP hot cold rs q opts) =
     primaryCount (queryUnified k tA tP hot cold rs q opts) +
     archiveCount (queryUnified k tA tP hot cold rs q opts) \<and>
   primaryCount (queryUnified k tA tP hot cold rs q opts) =
     (if shouldQueryPrimary tP (rangeStart (kindRange k q)) (rangeEnd (kindRange k q))
      then (case countDocuments hot q of Inl e \<Rightarrow> 0 | Inr c \<Rightarrow> c) else 0) \<and>
   primaryCount (queryUnified k tA tP hot cold rs q (opts\<lparr>skip := skip', limit := limit'\<rparr>)) =
     primaryCount (queryUnified k tA tP hot cold rs q opts) \<and>
   archiveCount (queryUnified k tA tP hot cold rs q opts) =
     (if shouldQueryArchive tA (rangeStart (kindRange k q)) (rangeEnd (kindRange k q))
      then (case snd (queryArchive k cold rs q
                   (archiveOptions
                      (shouldQueryPrimary tP (rangeStart (kindRange k q)) (rangeEnd (kindRange k q)))
                      (if shouldQueryPrimary tP (rangeStart (kindRange k q)) (rangeEnd (kindRange k q))
                       then fst (primaryTier hot q opts) else []) opts)) of
              Inl e \<Rightarrow> 0
            | Inr ys \<Rightarrow> (case countDocuments cold q of Inl e \<Rightarrow> 0 | Inr c \<Rightarrow> c))
      else 0) \<and>
   primaryCount (queryUnified k tA tP (collection hs) (collection cs) (entities es) q opts) =
     (if shouldQueryPrimary tP (rangeStart (kindRange k q)) (rangeEnd (kindRange k q))
      then length (filter (matches q) hs) else 0) \<and>
   archiveCount (queryUnified k tA tP (collection hs) (collection cs) (entities es) q opts) =
     (if shouldQueryArchive tA (rangeStart (kindRange k q)) (rangeEnd (kindRange k q))
      then length (filter (matches q) cs) else 0) \<and>
   total (queryUnified k tA tP (collection hs) (collection cs) (entities es) q
            (opts\<lparr>skip := skip', limit := limit'\<rparr>)) =
     total (queryUnified k tA tP (collection hs) (collection cs) (entities es) q opts)"
proof -
  have 1: "primaryCount (queryUnified k tA tP hot cold rs q opts) =
     (if shouldQueryPrimary tP (rangeStart (kindRange k q)) (rangeEnd (kindRange k q))
      then (case countDocuments hot q of Inl e \<Rightarrow> 0 | Inr c \<Rightarrow> c) else 0)" for opts
    by (simp add: queryUnified_def Let_def primaryTier_def split: sum.splits)
  have 2: "archiveCount (queryUnified k tA tP hot cold rs q opts) =
     (if shouldQueryArchive tA (rangeStart (kindRange k q)) (rangeEnd (kindRange k q))
      then (case snd (queryArchive k cold rs q
                   (archiveOptions
                      (shouldQueryPrimary tP (rangeStart (kindRange k q)) (rangeEnd (kindRange k q)))
                      (if shouldQueryPrimary tP (rangeStart (kindRange k q)) (rangeEnd (kindRange k q))
                       then fst (primaryTier hot q opts) else []) opts)) of
              Inl e \<Rightarrow> 0
            | Inr ys \<Rightarrow> (case countDocuments cold q of Inl e \<Rightarrow> 0 | Inr c \<Rightarrow> c))
      else 0)"
    by (simp add: queryUnified_def Let_def archiveTier_def countArchive_eq split: sum.splits)
  have 3: "primaryCount (queryUnified k tA tP hot cold rs q (opts\<lparr>skip := skip', limit := limit'\<rparr>)) =
     primaryCount (queryUnified k tA tP hot cold rs q opts)"
    unfolding 1 ..
  have 4: "total (queryUnified k tA tP hot cold rs q opts) =
     primaryCount (queryUnified k tA tP hot cold rs q opts) +
     archiveCount (queryUnified k tA tP hot cold rs q opts)"
    by (simp add: queryUnified_def Let_def)
  have 5: "primaryCount (queryUnified k tA tP (collection hs) (collection cs) (entities es) q opts) =
     (if shouldQueryPrimary tP (rangeStart (kindRange k q)) (rangeEnd (kindRange k q))
      then length (filter (matches q) hs) else 0) \<and>
   archiveCount (queryUnified k tA tP (collection hs) (collection cs) (entities es) q opts) =
     (if shouldQueryArchive tA (rangeStart (kindRange k q)) (rangeEnd (kindRange k q))
      then length (filter (matches q) cs) else 0) \<and>
   total (queryUnified k tA tP (collection hs) (collection cs) (entities es) q
            (opts\<lparr>skip := skip', limit := limit'\<rparr>)) =
     total (queryUnified k tA tP (collection hs) (collection cs) (entities es) q opts)"
    by (simp add: queryUnified_def Let_def primaryTier_collection archiveTier_collection)
  show ?thesis using 1 [of opts] 2 3 4 5 by blast
qed

subsection \<open>The record at the threshold\<close>

text \<open>
  C2 says that under a straddling filter (start before the threshold, end at or after
  it) with both tiers queried, a record whose designated timestamp is the threshold is
  served by Hot only, never by Cold, in the result of the federated queries. The
  federated queries do not do this: they send the caller's filter unchanged to both
  stores and never call \<open>splitQueryByDate\<close>. With the threshold at 10, the straddling
  filter \<^verbatim>\<open>{ saleDate: { $gte: 5, $lte: 20 } }\<close> selects both tiers; a sale dated 10 that
  the Cold store holds is fetched from Cold and returned (\<open>fromArchive = 1\<close>), although
  the cold sub-filter of \<open>splitQueryByDate\<close> rejects it.
\<close>

theorem C2_threshold_record_served_by_cold:
  "shouldQueryArchive 10 (Some 5) (Some 20) \<and> shouldQueryPrimary 10 (Some 5) (Some 20) \<and>
   queryUnifiedSales 10 10 (collection [])
      (collection [(exampleDoc 1 10)\<lparr>originalId := Some 7\<rparr>]) (entities noEntities)
      [(''saleDate'', OpsObj \<lparr>gte = Some 5, lte = Some 20, gt = None, lt = None\<rparr>)]
      (defaultOptions SaleK) =
     \<lparr>data = [(exampleDoc 1 10)\<lparr>originalId := Some 7, originalIdCopy := Some 7\<rparr>],
      total = 1, fromPrimary = 0, fromArchive = 1, primaryCount = 0, archiveCount = 1\<rparr> \<and>
   mergeKey SaleK (exampleDoc 1 10) = 10 \<and>
   \<not> matches (archiveQuery (splitQueryByDate 10 10 10 10
      [(''saleDate'', OpsObj \<lparr>gte = Some 5, lte = Some 20, gt = None, lt = None\<rparr>)] ''saleDate''))
      (exampleDoc 1 10)"
  by code_simp

subsection \<open>Store failures\<close>

text \<open>
  C5 as stated (a tier whose store operations raise contributes no record and the count
  0) fails where only the second operation of a tier raises. Hot answers the
  count (1) and raises on the page fetch; Cold answers the page fetch (one record) and
  raises on the count. The call returns, but Hot contributes its count 1 with no record,
  and Cold contributes its record with the count 0; the record is the one fetched, not
  its normalized copy, which would carry the copy of \<^verbatim>\<open>originalId\<close>.
\<close>

theorem C5_partial_failure_counterexample:
  "queryUnifiedSales 10 10 (findFails [exampleDoc 2 15])
      (countFails [(exampleDoc 1 5)\<lparr>originalId := Some 7\<rparr>])
      (entities noEntities) [] (defaultOptions SaleK) =
     \<lparr>data = [(exampleDoc 1 5)\<lparr>originalId := Some 7\<rparr>], total = 1, fromPrimary = 0,
      fromArchive = 1, primaryCount = 1, archiveCount = 0\<rparr> \<and>
   normalizeArchiveRecord ((exampleDoc 1 5)\<lparr>originalId := Some 7\<rparr>) =
     (exampleDoc 1 5)\<lparr>originalId := Some 7, originalIdCopy := Some 7\<rparr>"
  by code_simp

text \<open>
  C5 as amended, for every behaviour of the stores. The call always returns a page. A
  tier whose first awaited operation raises (the count for Hot; the page fetch, with its
  reference lookups, for Cold) contributes no record and the count 0. When only the
  second operation raises, what the first returned is kept: Hot contributes no record
  and its count; Cold contributes the count 0 and the page as fetched, not normalized,
  which is the data when Cold alone is queried and is merged with the hot page
  otherwise. An unreachable tier gives the page that an empty tier gives, so with Cold
  unreachable \<open>fromArchive = 0\<close>, \<open>archiveCount = 0\<close> and the Hot contribution is what
  it is over an empty Cold store.
\<close>

theorem C5_store_errors_are_caught:
  "(countDocuments hot q = Inl StoreError \<longrightarrow>
      fromPrimary (queryUnified k tA tP hot cold rs q opts) = 0 \<and>
      primaryCount (queryUnified k tA tP hot cold rs q opts) = 0) \<and>
   (shouldQueryPrimary tP (rangeStart (kindRange k q)) (rangeEnd (kindRange k q)) \<and>
    countDocuments hot q = Inr c \<and> execFind hot q (primaryFindOpts opts) = Inl StoreError \<longrightarrow>
      fromPrimary (queryUnified k tA tP hot cold rs q opts) = 0 \<and>
      primaryCount (queryUnified k tA tP hot cold rs q opts) = c) \<and>
   (snd (queryArchive k cold rs q
           (archiveOptions (shouldQueryPrimary tP (rangeStart (kindRange k q)) (rangeEnd (kindRange k q)))
              (if shouldQueryPrimary tP (rangeStart (kindRange k q)) (rangeEnd (kindRange k q))
               then fst (primaryTier hot q opts) else []) opts)) = Inl StoreError \<longrightarrow>
      fromArchive (queryUnified k tA tP hot cold rs q opts) = 0 \<and>
      archiveCount (queryUnified k tA tP hot cold rs q opts) = 0) \<and>
   (shouldQueryArchive tA (rangeStart (kindRange k q)) (rangeEnd (kindRange k q)) \<and>
    snd (queryArchive k cold rs q
           (archiveOptions (shouldQueryPrimary tP (rangeStart (kindRange k q)) (rangeEnd (kindRange k q)))
              (if shouldQueryPrimary tP (rangeStart (kindRange k q)) (rangeEnd (kindRange k q))
               then fst (primaryTier hot q opts) else []) opts)) = Inr ys \<and>
    countDocuments cold q = Inl StoreError \<longrightarrow>
      fromArchive (queryUnified k tA tP hot cold rs q opts) = length ys \<and>
      archiveCount (queryUnified k tA tP hot cold rs q opts) = 0 \<and>
      data (queryUnified k tA tP hot cold rs q opts) =
        (if shouldQueryPrimary tP (rangeStart (kindRange k q)) (rangeEnd (kindRange k q))
         then take (limit opts) (sortDescending (mergeKey k) (fst (primaryTier hot q opts) @ ys))
         else ys)) \<and>
   queryUnified k tA tP hot unreachable rs q opts =
     queryUnified k tA tP hot (collection []) rs q opts \<and>
   queryUnified k tA tP unreachable cold rs q opts =
     queryUnified k tA tP (collection []) cold rs q opts \<and>
   fromArchive (queryUnified k tA tP hot unreachable rs q opts) = 0 \<and>
   archiveCount (queryUnified k tA tP hot unreachable rs q opts) = 0"
proof -
  let ?qp = "shouldQueryPrimary tP (rangeStart (kindRange k q)) (rangeEnd (kindRange k q))"
  let ?pr = "if ?qp then fst (primaryTier hot q opts) else []"
  have 1: "countDocuments hot q = Inl StoreError \<longrightarrow>
      fromPrimary (queryUnified k tA tP hot cold rs q opts) = 0 \<and>
      primaryCount (queryUnified k tA tP hot cold rs q opts) = 0"
    by (simp add: queryUnified_def Let_def primaryTier_count_fails)
  have 2: "?qp \<and> countDocuments hot q = Inr c \<and>
      execFind hot q (primaryFindOpts opts) = Inl StoreError \<longrightarrow>
      fromPrimary (queryUnified k tA tP hot cold rs q opts) = 0 \<and>
      primaryCount (queryUnified k tA tP hot cold rs q opts) = c"
    by (simp add: queryUnified_def Let_def primaryTier_find_fails)
  have 3: "snd (queryArchive k cold rs q (archiveOptions ?qp ?pr opts)) = Inl StoreError \<longrightarrow>
      fromArchive (queryUnified k tA tP hot cold rs q opts) = 0 \<and>
      archiveCount (queryUnified k tA tP hot cold rs q opts) = 0"
    by (simp add: queryUnified_def Let_def archiveTier_fetch_fails)
  have 4: "shouldQueryArchive tA (rangeStart (kindRange k q)) (rangeEnd (kindRange k q)) \<and>
    snd (queryArchive k cold rs q (archiveOptions ?qp ?pr opts)) = Inr ys \<and>
    countDocuments cold q = Inl StoreError \<longrightarrow>
      fromArchive (queryUnified k tA tP hot cold rs q opts) = length ys \<and>
      archiveCount (queryUnified k tA tP hot cold rs q opts) = 0 \<and>
      data (queryUnified k tA tP hot cold rs q opts) =
        (if ?qp then take (limit opts) (sortDescending (mergeKey k) (fst (primaryTier hot q opts) @ ys))
         else ys)"
  proof -
    have a: "shouldQueryArchive tA (rangeStart (kindRange k q)) (rangeEnd (kindRange k q)) \<and>
      snd (queryArchive k cold rs q (archiveOptions ?qp ?pr opts)) = Inr ys \<and>
      countDocuments cold q = Inl StoreError \<longrightarrow>
        fromArchive (queryUnified k tA tP hot cold rs q opts) = length ys \<and>
        archiveCount (queryUnified k tA tP hot cold rs q opts) = 0"
      by (simp add: queryUnified_def Let_def archiveTier_count_fails)
    have b: "shouldQueryArchive tA (rangeStart (kindRange k q)) (rangeEnd (kindRange k q)) \<and>
      snd (queryArchive k cold rs q (archiveOptions ?qp ?pr opts)) = Inr ys \<and>
      countDocuments cold q = Inl StoreError \<longrightarrow>
        data (queryUnified k tA tP hot cold rs q opts) =
          (if ?qp then take (limit opts) (sortDescending (mergeKey k) (fst (primaryTier hot q opts) @ ys))
           else ys)"
      by (simp add: queryUnified_data Let_def archiveTier_count_fails)
    show ?thesis using a b by blast
  qed
  have 5: "queryUnified k tA tP hot unreachable rs q opts =
     queryUnified k tA tP hot (collection []) rs q opts"
    by (simp add: queryUnified_def Let_def archiveTier_unreachable archiveTier_empty)
  have 6: "queryUnified k tA tP unreachable cold rs q opts =
     queryUnified k tA tP (collection []) cold rs q opts"
    by (simp add: queryUnified_def Let_def primaryTier_unreachable primaryTier_empty)
  have 7: "fromArchive (queryUnified k tA tP hot unreachable rs q opts) = 0 \<and>
   archiveCount (queryUnified k tA tP hot unreachable rs q opts) = 0"
    by (simp add: queryUnified_def Let_def archiveTier_unreachable)
  show ?thesis using 1 2 3 4 5 6 7 by blast
qed

theorem C5_store_errors_are_caught_witness:
  "countDocuments unreachable [] = Inl StoreError \<and>
   fromPrimary (queryUnified SaleK 10 10 unreachable (countFails [(exampleDoc 1 5)\<lparr>originalId := Some 7\<rparr>])
      (entities noEntities) [] (defaultOptions SaleK)) = 0 \<and>
   shouldQueryPrimary 10 (rangeStart (kindRange SaleK [])) (rangeEnd (kindRange SaleK [])) \<and>
   countDocuments (findFails [exampleDoc 2 15]) [] = Inr 1 \<and>
   execFind (findFails [exampleDoc 2 15]) [] (primaryFindOpts (defaultOptions SaleK)) = Inl StoreError \<and>
   primaryCount (queryUnified SaleK 10 10 (findFails [exampleDoc 2 15]) unreachable
      (entities noEntities) [] (defaultOptions SaleK)) = 1 \<and>
   archiveCount (queryUnified SaleK 10 10 (findFails [exampleDoc 2 15]) unreachable
      (entities noEntities) [] (defaultOptions SaleK)) = 0 \<and>
   shouldQueryArchive 10 (rangeStart (kindRange SaleK [])) (rangeEnd (kindRange SaleK [])) \<and>
   countDocuments (countFails [(exampleDoc 1 5)\<lparr>originalId := Some 7\<rparr>]) [] = Inl StoreError \<and>
   fromArchive (queryUnified SaleK 10 10 unreachable (countFails [(exampleDoc 1 5)\<lparr>originalId := Some 7\<rparr>])
      (entities noEntities) [] (defaultOptions SaleK)) = 1 \<and>
   archiveCount (queryUnified SaleK 10 10 unreachable (countFails [(exampleDoc 1 5)\<lparr>originalId := Some 7\<rparr>])
      (entities noEntities) [] (defaultOptions SaleK)) = 0 \<and>
   data (queryUnified SaleK 10 10 unreachable (countFails [(exampleDoc 1 5)\<lparr>originalId := Some 7\<rparr>])
      (entities noEntities) [] (defaultOptions SaleK)) = [(exampleDoc 1 5)\<lparr>originalId := Some 7\<rparr>]"
proof -
  let ?opts = "defaultOptions SaleK"
  have qp: "shouldQueryPrimary 10 (rangeStart (kindRange SaleK [])) (rangeEnd (kindRange SaleK []))"
    by code_simp
  have qa: "shouldQueryArchive 10 (rangeStart (kindRange SaleK [])) (rangeEnd (kindRange SaleK []))"
    by code_simp
  have h1: "countDocuments unreachable [] = Inl StoreError"
    by (simp add: unreachable_def)
  have h2: "countDocuments (findFails [exampleDoc 2 15]) [] = Inr 1"
    by code_simp
  have h2': "execFind (findFails [exampleDoc 2 15]) [] (primaryFindOpts ?opts) = Inl StoreError"
    by (simp add: findFails_def)
  have h3: "snd (queryArchive SaleK unreachable (entities noEntities) [] ao) = Inl StoreError" for ao
    using queryArchive_find_fails [of unreachable "[]" ao StoreError SaleK "entities noEntities"]
    by (simp add: unreachable_def)
  have h4: "snd (queryArchive SaleK (countFails [(exampleDoc 1 5)\<lparr>originalId := Some 7\<rparr>]) (entities noEntities) []
        (archiveOptions (shouldQueryPrimary 10 (rangeStart (kindRange SaleK [])) (rangeEnd (kindRange SaleK [])))
           (if shouldQueryPrimary 10 (rangeStart (kindRange SaleK [])) (rangeEnd (kindRange SaleK []))
            then fst (primaryTier unreachable [] ?opts) else []) ?opts)) = Inr [(exampleDoc 1 5)\<lparr>originalId := Some 7\<rparr>]"
    by code_simp
  have h4': "countDocuments (countFails [(exampleDoc 1 5)\<lparr>originalId := Some 7\<rparr>]) [] = Inl StoreError"
    by (simp add: countFails_def)
  note A = C5_store_errors_are_caught [of unreachable "[]" SaleK 10 10 "countFails [(exampleDoc 1 5)\<lparr>originalId := Some 7\<rparr>]"
        "entities noEntities" ?opts 0 "[(exampleDoc 1 5)\<lparr>originalId := Some 7\<rparr>]"]
  note B = C5_store_errors_are_caught [of "findFails [exampleDoc 2 15]" "[]" SaleK 10 10 unreachable
        "entities noEntities" ?opts 1 "[]"]
  have a1: "fromPrimary (queryUnified SaleK 10 10 unreachable (countFails [(exampleDoc 1 5)\<lparr>originalId := Some 7\<rparr>])
      (entities noEntities) [] ?opts) = 0"
    using A h1 by blast
  have a4: "fromArchive (queryUnified SaleK 10 10 unreachable (countFails [(exampleDoc 1 5)\<lparr>originalId := Some 7\<rparr>])
      (entities noEntities) [] ?opts) = 1 \<and>
    archiveCount (queryUnified SaleK 10 10 unreachable (countFails [(exampleDoc 1 5)\<lparr>originalId := Some 7\<rparr>])
      (entities noEntities) [] ?opts) = 0"
  proof -
    have "fromArchive (queryUnified SaleK 10 10 unreachable (countFails [(exampleDoc 1 5)\<lparr>originalId := Some 7\<rparr>])
        (entities noEntities) [] ?opts) = length [(exampleDoc 1 5)\<lparr>originalId := Some 7\<rparr>] \<and>
      archiveCount (queryUnified SaleK 10 10 unreachable (countFails [(exampleDoc 1 5)\<lparr>originalId := Some 7\<rparr>])
        (entities noEntities) [] ?opts) = 0"
      using A qa h4 h4' by blast
    then show ?thesis by simp
  qed
  have ev: "(if shouldQueryPrimary 10 (rangeStart (kindRange SaleK [])) (rangeEnd (kindRange SaleK []))
             then take (limit ?opts) (sortDescending (mergeKey SaleK)
                    (fst (primaryTier unreachable [] ?opts) @ [(exampleDoc 1 5)\<lparr>originalId := Some 7\<rparr>]))
             else [(exampleDoc 1 5)\<lparr>originalId := Some 7\<rparr>]) = [(exampleDoc 1 5)\<lparr>originalId := Some 7\<rparr>]"
    by code_simp
  have a5: "data (queryUnified SaleK 10 10 unreachable (countFails [(exampleDoc 1 5)\<lparr>originalId := Some 7\<rparr>])
      (entities noEntities) [] ?opts) = [(exampleDoc 1 5)\<lparr>originalId := Some 7\<rparr>]"
  proof -
    have "data (queryUnified SaleK 10 10 unreachable (countFails [(exampleDoc 1 5)\<lparr>originalId := Some 7\<rparr>])
        (entities noEntities) [] ?opts) =
      (if shouldQueryPrimary 10 (rangeStart (kindRange SaleK [])) (rangeEnd (kindRange SaleK []))
       then take (limit ?opts) (sortDescending (mergeKey SaleK)
              (fst (primaryTier unreachable [] ?opts) @ [(exampleDoc 1 5)\<lparr>originalId := Some 7\<rparr>]))
       else [(exampleDoc 1 5)\<lparr>originalId := Some 7\<rparr>])"
      using A qa h4 h4' by blast
    then show ?thesis unfolding ev .
  qed
  have b2: "primaryCount (queryUnified SaleK 10 10 (findFails [exampleDoc 2 15]) unreachable
      (entities noEntities) [] ?opts) = 1"
    using B qp h2 h2' by blast
  have b3: "archiveCount (queryUnified SaleK 10 10 (findFails [exampleDoc 2 15]) unreachable
      (entities noEntities) [] ?opts) = 0"
    using B h3 by blast
  show ?thesis
    using qp qa h1 h2 h2' h4' a1 a4 a5 b2 b3 by blast
qed

subsection \<open>Merging\<close>

text \<open>
  C6 as stated (the merged pages are re-sorted in the direction the caller requested)
  fails on the direction: the caller asks for ascending sale dates, both
  tiers are queried, and the merged data comes back in descending order (30, 20, 5).
\<close>

theorem C6_requested_direction_counterexample:
  "sortSpec ((defaultOptions SaleK)\<lparr>sortSpec := Some [(''saleDate'', 1)]\<rparr>) = Some [(''saleDate'', 1)] \<and>
   data (queryUnifiedSales 10 10 (collection [exampleDoc 3 30, exampleDoc 2 20])
           (collection [exampleDoc 1 5]) (entities noEntities) []
           ((defaultOptions SaleK)\<lparr>sortSpec := Some [(''saleDate'', 1)]\<rparr>)) =
     [exampleDoc 3 30, exampleDoc 2 20, exampleDoc 1 5]"
  by code_simp

text \<open>
  C6 as amended. When both tiers are queried, the data is the concatenation of the two
  pages, sorted by the designated timestamp of the kind (\<^verbatim>\<open>createdAt\<close> for a record
  that has none) in descending order, whatever sort the caller requested, and cut to
  the caller's limit: it is sorted descending, holds at most \<open>limit\<close> records, and the
  sort keeps every record of the two pages. When one tier only is queried, the data is
  that tier's page as its block left it.
\<close>

theorem C6_merge_descending:
  "(shouldQueryArchive tA (rangeStart (kindRange k q)) (rangeEnd (kindRange k q)) \<and>
    shouldQueryPrimary tP (rangeStart (kindRange k q)) (rangeEnd (kindRange k q)) \<longrightarrow>
      data (queryUnified k tA tP hot cold rs q opts) =
        take (limit opts) (sortDescending (mergeKey k)
          (fst (primaryTier hot q opts) @
           fst (archiveTier k cold rs True (fst (primaryTier hot q opts)) q opts))) \<and>
      sorted_wrt (\<lambda>a b. mergeKey k a \<ge> mergeKey k b) (data (queryUnified k tA tP hot cold rs q opts)) \<and>
      mset (sortDescending (mergeKey k)
          (fst (primaryTier hot q opts) @
           fst (archiveTier k cold rs True (fst (primaryTier hot q opts)) q opts))) =
        mset (fst (primaryTier hot q opts)) +
        mset (fst (archiveTier k cold rs True (fst (primaryTier hot q opts)) q opts)) \<and>
      length (data (queryUnified k tA tP hot cold rs q opts)) \<le> limit opts) \<and>
   (\<not> shouldQueryArchive tA (rangeStart (kindRange k q)) (rangeEnd (kindRange k q)) \<and>
    shouldQueryPrimary tP (rangeStart (kindRange k q)) (rangeEnd (kindRange k q)) \<longrightarrow>
      data (queryUnified k tA tP hot cold rs q opts) = fst (primaryTier hot q opts)) \<and>
   (shouldQueryArchive tA (rangeStart (kindRange k q)) (rangeEnd (kindRange k q)) \<and>
    \<not> shouldQueryPrimary tP (rangeStart (kindRange k q)) (rangeEnd (kindRange k q)) \<longrightarrow>
      data (queryUnified k tA tP hot cold rs q opts) = fst (archiveTier k cold rs False [] q opts))"
proof -
  have s: "\<And>xs n. sorted_wrt (\<lambda>a b. mergeKey k a \<ge> mergeKey k b)
             (take n (sortDescending (mergeKey k) xs))"
  proof -
    fix xs :: "doc list" and n
    have "sorted (map (\<lambda>a. - mergeKey k a) (sortDescending (mergeKey k) xs))"
      by (simp add: sortDescending_def)
    then have "sorted_wrt (\<lambda>a b. mergeKey k a \<ge> mergeKey k b) (sortDescending (mergeKey k) xs)"
      by (simp add: sorted_map)
    then show "sorted_wrt (\<lambda>a b. mergeKey k a \<ge> mergeKey k b)
             (take n (sortDescending (mergeKey k) xs))"
      by (rule sorted_wrt_take)
  qed
  show ?thesis
    by (simp add: queryUnified_data Let_def s) (simp add: sortDescending_def)
qed

theorem C6_merge_descending_witness:
  "shouldQueryArchive 10 (rangeStart (kindRange SaleK [])) (rangeEnd (kindRange SaleK [])) \<and>
   shouldQueryPrimary 10 (rangeStart (kindRange SaleK [])) (rangeEnd (kindRange SaleK [])) \<and>
   data (queryUnified SaleK 10 10 (collection [exampleDoc 3 30, exampleDoc 2 20])
           (collection [exampleDoc 1 5]) (entities noEntities) []
           ((defaultOptions SaleK)\<lparr>sortSpec := Some [(''saleDate'', 1)]\<rparr>)) =
     [exampleDoc 3 30, exampleDoc 2 20, exampleDoc 1 5] \<and>
   sorted_wrt (\<lambda>a b. mergeKey SaleK a \<ge> mergeKey SaleK b)
     (data (queryUnified SaleK 10 10 (collection [exampleDoc 3 30, exampleDoc 2 20])
           (collection [exampleDoc 1 5]) (entities noEntities) []
           ((defaultOptions SaleK)\<lparr>sortSpec := Some [(''saleDate'', 1)]\<rparr>))) \<and>
   \<not> shouldQueryArchive 10 (rangeStart (kindRange SaleK [(''saleDate'', DateVal 20)]))
         (rangeEnd (kindRange SaleK [(''saleDate'', DateVal 20)])) \<and>
   shouldQueryPrimary 10 (rangeStart (kindRange SaleK [(''saleDate'', DateVal 20)]))
         (rangeEnd (kindRange SaleK [(''saleDate'', DateVal 20)])) \<and>
   data (queryUnified SaleK 10 10 (collection [exampleDoc 3 30, exampleDoc 2 20])
           (collection [exampleDoc 1 5]) (entities noEntities) [(''saleDate'', DateVal 20)]
           (defaultOptions SaleK)) = [exampleDoc 2 20] \<and>
   shouldQueryArchive 10 (rangeStart (kindRange SaleK [(''saleDate'', DateVal 5)]))
         (rangeEnd (kindRange SaleK [(''saleDate'', DateVal 5)])) \<and>
   \<not> shouldQueryPrimary 10 (rangeStart (kindRange SaleK [(''saleDate'', DateVal 5)]))
         (rangeEnd (kindRange SaleK [(''saleDate'', DateVal 5)])) \<and>
   data (queryUnified SaleK 10 10 (collection [exampleDoc 3 30, exampleDoc 2 20])
           (collection [exampleDoc 1 5]) (entities noEntities) [(''saleDate'', DateVal 5)]
           (defaultOptions SaleK)) = [exampleDoc 1 5]"
proof -
  let ?hot = "collection [exampleDoc 3 30, exampleDoc 2 20]"
  let ?cold = "collection [exampleDoc 1 5]"
  let ?asc = "(defaultOptions SaleK)\<lparr>sortSpec := Some [(''saleDate'', 1)]\<rparr>"
  let ?q20 = "[(''saleDate'', DateVal 20)]"
  let ?q5 = "[(''saleDate'', DateVal 5)]"
  have s0: "shouldQueryArchive 10 (rangeStart (kindRange SaleK [])) (rangeEnd (kindRange SaleK [])) \<and>
    shouldQueryPrimary 10 (rangeStart (kindRange SaleK [])) (rangeEnd (kindRange SaleK []))"
    by code_simp
  have s20: "\<not> shouldQueryArchive 10 (rangeStart (kindRange SaleK ?q20)) (rangeEnd (kindRange SaleK ?q20)) \<and>
    shouldQueryPrimary 10 (rangeStart (kindRange SaleK ?q20)) (rangeEnd (kindRange SaleK ?q20))"
    by code_simp
  have s5: "shouldQueryArchive 10 (rangeStart (kindRange SaleK ?q5)) (rangeEnd (kindRange SaleK ?q5)) \<and>
    \<not> shouldQueryPrimary 10 (rangeStart (kindRange SaleK ?q5)) (rangeEnd (kindRange SaleK ?q5))"
    by code_simp
  have e0: "take (limit ?asc) (sortDescending (mergeKey SaleK)
          (fst (primaryTier ?hot [] ?asc) @
           fst (archiveTier SaleK ?cold (entities noEntities) True (fst (primaryTier ?hot [] ?asc))
                  [] ?asc))) = [exampleDoc 3 30, exampleDoc 2 20, exampleDoc 1 5]"
    by code_simp
  have e20: "fst (primaryTier ?hot ?q20 (defaultOptions SaleK)) = [exampleDoc 2 20]"
    by code_simp
  have e5: "fst (archiveTier SaleK ?cold (entities noEntities) False [] ?q5 (defaultOptions SaleK)) =
      [exampleDoc 1 5]"
    by code_simp
  note A = C6_merge_descending [of 10 SaleK "[]" 10 ?hot ?cold "entities noEntities" ?asc]
  note B = C6_merge_descending [of 10 SaleK ?q20 10 ?hot ?cold "entities noEntities"
      "defaultOptions SaleK"]
  note C = C6_merge_descending [of 10 SaleK ?q5 10 ?hot ?cold "entities noEntities"
      "defaultOptions SaleK"]
  have a: "data (queryUnified SaleK 10 10 ?hot ?cold (entities noEntities) [] ?asc) =
      [exampleDoc 3 30, exampleDoc 2 20, exampleDoc 1 5] \<and>
    sorted_wrt (\<lambda>a b. mergeKey SaleK a \<ge> mergeKey SaleK b)
      (data (queryUnified SaleK 10 10 ?hot ?cold (entities noEntities) [] ?asc))"
    using A s0 e0 by metis
  have b: "data (queryUnified SaleK 10 10 ?hot ?cold (entities noEntities) ?q20
      (defaultOptions SaleK)) = [exampleDoc 2 20]"
    using B s20 e20 by metis
  have c: "data (queryUnified SaleK 10 10 ?hot ?cold (entities noEntities) ?q5
      (defaultOptions SaleK)) = [exampleDoc 1 5]"
    using C s5 e5 by metis
  show ?thesis using s0 s20 s5 a b c by blast
qed

subsection \<open>Fetched counts\<close>

text \<open>
  C10 as stated (with a full hot page every matching cold record is fetched and counted
  in \<open>fromArchive\<close>) fails where the caller skips records: with a
  skip of 1 and a limit of 1, the hot page is full, the archive is queried with no limit
  but with the caller's skip, and the one matching cold record is skipped
  (\<open>archiveCount = 1\<close>, \<open>fromArchive = 0\<close>).
\<close>

theorem C10_skipped_cold_record_counterexample:
  "queryUnifiedSales 10 10 (collection [exampleDoc 3 30, exampleDoc 2 20])
      (collection [exampleDoc 1 5]) (entities noEntities) []
      ((defaultOptions SaleK)\<lparr>skip := 1, limit := 1\<rparr>) =
     \<lparr>data = [exampleDoc 2 20], total = 3, fromPrimary = 1, fromArchive = 0,
      primaryCount = 2, archiveCount = 1\<rparr> \<and>
   filter (matches []) [exampleDoc 1 5] = [exampleDoc 1 5]"
  by code_simp

text \<open>
  C10 as amended. \<open>fromPrimary\<close> and \<open>fromArchive\<close> are the lengths of the two pages as
  fetched, before the merge and the cut. When both tiers are queried and the hot page is
  full (exactly \<open>limit\<close> records), the cold limit is 0, which the archive layer treats as
  no limit, and the cold skip is the caller's skip: over a reachable Cold collection
  every matching cold record after the first \<open>skip\<close> ones is fetched and counted in
  \<open>fromArchive\<close> (all of them when the skip is 0), while the data holds exactly \<open>limit\<close>
  records; so \<open>fromPrimary + fromArchive\<close> exceeds the length of the data by the number
  of cold records fetched.
\<close>

theorem C10_fetched_counts:
  "fromPrimary (queryUnified k tA tP hot cold rs q opts) =
     length (if shouldQueryPrimary tP (rangeStart (kindRange k q)) (rangeEnd (kindRange k q))
             then fst (primaryTier hot q opts) else []) \<and>
   fromArchive (queryUnified k tA tP hot cold rs q opts) =
     length (if shouldQueryArchive tA (rangeStart (kindRange k q)) (rangeEnd (kindRange k q))
             then fst (archiveTier k cold rs
                    (shouldQueryPrimary tP (rangeStart (kindRange k q)) (rangeEnd (kindRange k q)))
                    (if shouldQueryPrimary tP (rangeStart (kindRange k q)) (rangeEnd (kindRange k q))
                     then fst (primaryTier hot q opts) else []) q opts)
             else []) \<and>
   (shouldQueryArchive tA (rangeStart (kindRange k q)) (rangeEnd (kindRange k q)) \<and>
    shouldQueryPrimary tP (rangeStart (kindRange k q)) (rangeEnd (kindRange k q)) \<and>
    length (fst (primaryTier hot q opts)) = limit opts \<longrightarrow>
      aLimit (archiveOptions True (fst (primaryTier hot q opts)) opts) = Some 0 \<and>
      fLimit (archiveFindOpts (archiveOptions True (fst (primaryTier hot q opts)) opts)) = None \<and>
      aSkip (archiveOptions True (fst (primaryTier hot q opts)) opts) = skip opts \<and>
      fromPrimary (queryUnified k tA tP hot cold rs q opts) = limit opts \<and>
      length (data (queryUnified k tA tP hot cold rs q opts)) = limit opts \<and>
      fromArchive (queryUnified k tA tP hot (collection cs) (entities es) q opts) =
        length (filter (matches q) cs) - skip opts \<and>
      archiveCount (queryUnified k tA tP hot (collection cs) (entities es) q opts) =
        length (filter (matches q) cs) \<and>
      fromPrimary (queryUnified k tA tP hot (collection cs) (entities es) q opts) +
      fromArchive (queryUnified k tA tP hot (collection cs) (entities es) q opts) =
        length (data (queryUnified k tA tP hot (collection cs) (entities es) q opts)) +
        (length (filter (matches q) cs) - skip opts))"
proof -
  let ?qa = "shouldQueryArchive tA (rangeStart (kindRange k q)) (rangeEnd (kindRange k q))"
  let ?qp = "shouldQueryPrimary tP (rangeStart (kindRange k q)) (rangeEnd (kindRange k q))"
  let ?pr = "fst (primaryTier hot q opts)"
  have 1: "fromPrimary (queryUnified k tA tP hot cold rs q opts) =
     length (if ?qp then ?pr else [])"
    by (simp add: queryUnified_def Let_def)
  have 2: "fromArchive (queryUnified k tA tP hot cold rs q opts) =
     length (if ?qa then fst (archiveTier k cold rs ?qp (if ?qp then ?pr else []) q opts) else [])"
    by (simp add: queryUnified_def Let_def)
  have 3: "aLimit (archiveOptions True ?pr opts) = Some 0 \<and>
      fLimit (archiveFindOpts (archiveOptions True ?pr opts)) = None \<and>
      aSkip (archiveOptions True ?pr opts) = skip opts \<and>
      fromPrimary (queryUnified k tA tP hot cold rs q opts) = limit opts \<and>
      length (data (queryUnified k tA tP hot cold rs q opts)) = limit opts \<and>
      fromArchive (queryUnified k tA tP hot (collection cs) (entities es) q opts) =
        length (filter (matches q) cs) - skip opts \<and>
      archiveCount (queryUnified k tA tP hot (collection cs) (entities es) q opts) =
        length (filter (matches q) cs) \<and>
      fromPrimary (queryUnified k tA tP hot (collection cs) (entities es) q opts) +
      fromArchive (queryUnified k tA tP hot (collection cs) (entities es) q opts) =
        length (data (queryUnified k tA tP hot (collection cs) (entities es) q opts)) +
        (length (filter (matches q) cs) - skip opts)"
    if h: "?qa \<and> ?qp \<and> length ?pr = limit opts"
  proof -
    have full: "length ?pr = limit opts" using h by simp
    note ao = archiveOptions_full_page [OF full]
    have fa: "length (fst (archiveTier k (collection cs) (entities es) True ?pr q opts)) =
        length (filter (matches q) cs) - skip opts"
      using ao by (simp add: archiveTier_collection length_collectionFind_no_limit)
    have len: "length (data (queryUnified k tA tP hot c r q opts)) = limit opts" for c r
      using h by (simp add: queryUnified_data Let_def sortDescending_def)
    have fp: "fromPrimary (queryUnified k tA tP hot c r q opts) = limit opts" for c r
      using h by (simp add: queryUnified_def Let_def)
    have fa': "fromArchive (queryUnified k tA tP hot (collection cs) (entities es) q opts) =
        length (filter (matches q) cs) - skip opts"
      using h fa by (simp add: queryUnified_def Let_def)
    have ac: "archiveCount (queryUnified k tA tP hot (collection cs) (entities es) q opts) =
        length (filter (matches q) cs)"
      using h by (simp add: queryUnified_def Let_def archiveTier_collection)
    show ?thesis using ao len fp fa' ac by simp
  qed
  show ?thesis using 1 2 3 by blast
qed

theorem C10_fetched_counts_witness:
  "shouldQueryArchive 10 (rangeStart (kindRange SaleK [])) (rangeEnd (kindRange SaleK [])) \<and>
   shouldQueryPrimary 10 (rangeStart (kindRange SaleK [])) (rangeEnd (kindRange SaleK [])) \<and>
   length (fst (primaryTier (collection [exampleDoc 3 30, exampleDoc 2 20]) []
      ((defaultOptions SaleK)\<lparr>limit := 2\<rparr>))) = limit ((defaultOptions SaleK)\<lparr>limit := 2\<rparr>) \<and>
   fromPrimary (queryUnified SaleK 10 10 (collection [exampleDoc 3 30, exampleDoc 2 20])
      (collection [exampleDoc 1 5, exampleDoc 4 4, exampleDoc 5 3]) (entities noEntities) []
      ((defaultOptions SaleK)\<lparr>limit := 2\<rparr>)) = 2 \<and>
   fromArchive (queryUnified SaleK 10 10 (collection [exampleDoc 3 30, exampleDoc 2 20])
      (collection [exampleDoc 1 5, exampleDoc 4 4, exampleDoc 5 3]) (entities noEntities) []
      ((defaultOptions SaleK)\<lparr>limit := 2\<rparr>)) = 3 \<and>
   length (data (queryUnified SaleK 10 10 (collection [exampleDoc 3 30, exampleDoc 2 20])
      (collection [exampleDoc 1 5, exampleDoc 4 4, exampleDoc 5 3]) (entities noEntities) []
      ((defaultOptions SaleK)\<lparr>limit := 2\<rparr>))) = 2"
proof -
  let ?hot = "collection [exampleDoc 3 30, exampleDoc 2 20]"
  let ?cs = "[exampleDoc 1 5, exampleDoc 4 4, exampleDoc 5 3]"
  let ?opts = "(defaultOptions SaleK)\<lparr>limit := 2\<rparr>"
  have s0: "shouldQueryArchive 10 (rangeStart (kindRange SaleK [])) (rangeEnd (kindRange SaleK [])) \<and>
    shouldQueryPrimary 10 (rangeStart (kindRange SaleK [])) (rangeEnd (kindRange SaleK []))"
    by code_simp
  have full: "length (fst (primaryTier ?hot [] ?opts)) = limit ?opts"
    by code_simp
  have m: "length (filter (matches []) ?cs) - skip ?opts = 3" "limit ?opts = 2"
    by code_simp+
  note A = C10_fetched_counts [of SaleK 10 10 ?hot "collection ?cs" "entities noEntities" "[]" ?opts
      ?cs noEntities]
  have "fromPrimary (queryUnified SaleK 10 10 ?hot (collection ?cs) (entities noEntities) [] ?opts) =
      limit ?opts \<and>
    fromArchive (queryUnified SaleK 10 10 ?hot (collection ?cs) (entities noEntities) [] ?opts) =
      length (filter (matches []) ?cs) - skip ?opts \<and>
    length (data (queryUnified SaleK 10 10 ?hot (collection ?cs) (entities noEntities) [] ?opts)) =
      limit ?opts"
    using A s0 full by blast
  then show ?thesis using s0 full m by metis
qed

subsection \<open>Reference resolution\<close>

lemma set_addRef:
  "set (idValues (addRef n f r s)) = set (idValues s) \<union> (if r = Unset then {} else {refKey r})"
  by (cases r) (force simp: addRef_def setAdd_def idValues_def)+

lemma keysOf_Cons:
  "keysOf field (r # rs) = (if field r = Unset then {} else {refKey (field r)}) \<union> keysOf field rs"
  by (auto simp: keysOf_def)

lemma keysOf_Nil: "keysOf field [] = {}"
  by (simp add: keysOf_def)

lemma fold_collectDoc:
  "fold (collectDoc path) nrs (u, p, s) = (u', p', s') \<Longrightarrow>
   set (idValues u') = set (idValues u) \<union>
      (if path = ''salesman'' then keysOf salesman (map snd nrs) else {}) \<union>
      (if path = ''dealer'' then keysOf dealer (map snd nrs) else {}) \<and>
   set (idValues p') = set (idValues p) \<union>
      (if path = ''product'' then keysOf productFk (map snd nrs) else {}) \<and>
   set (idValues s') = set (idValues s) \<union>
      (if path = ''shopkeeper'' then keysOf shopkeeper (map snd nrs) else {})"
proof (induction nrs arbitrary: u p s)
  case Nil
  then show ?case by (simp add: keysOf_Nil)
next
  case (Cons nr nrs)
  obtain u1 p1 s1 where step: "collectDoc path nr (u, p, s) = (u1, p1, s1)"
    by (cases "collectDoc path nr (u, p, s)") auto
  have s1: "set (idValues u1) = set (idValues u) \<union>
        (if path = ''salesman'' \<and> salesman (snd nr) \<noteq> Unset then {refKey (salesman (snd nr))} else {}) \<union>
        (if path = ''dealer'' \<and> dealer (snd nr) \<noteq> Unset then {refKey (dealer (snd nr))} else {})"
    "set (idValues p1) = set (idValues p) \<union>
        (if path = ''product'' \<and> productFk (snd nr) \<noteq> Unset then {refKey (productFk (snd nr))} else {})"
    "set (idValues s1) = set (idValues s) \<union>
        (if path = ''shopkeeper'' \<and> shopkeeper (snd nr) \<noteq> Unset then {refKey (shopkeeper (snd nr))}
         else {})"
    using step by (auto simp: collectDoc_def Let_def set_addRef split: if_splits)
  have "fold (collectDoc path) nrs (u1, p1, s1) = (u', p', s')"
    using Cons.prems step by simp
  from Cons.IH [OF this] show ?case
    using s1 by (auto simp: keysOf_Cons)
qed

lemma fold_collect_all:
  "fold (\<lambda>pop ids. fold (collectDoc (popPath pop)) nrs ids) pops (u, p, s) = (u', p', s') \<Longrightarrow>
   set (idValues u') = set (idValues u) \<union>
      (if requested ''salesman'' pops then keysOf salesman (map snd nrs) else {}) \<union>
      (if requested ''dealer'' pops then keysOf dealer (map snd nrs) else {}) \<and>
   set (idValues p') = set (idValues p) \<union>
      (if requested ''product'' pops then keysOf productFk (map snd nrs) else {}) \<and>
   set (idValues s') = set (idValues s) \<union>
      (if requested ''shopkeeper'' pops then keysOf shopkeeper (map snd nrs) else {})"
proof (induction pops arbitrary: u p s)
  case Nil
  then show ?case by (simp add: requested_def)
next
  case (Cons pop pops)
  obtain u1 p1 s1 where step: "fold (collectDoc (popPath pop)) nrs (u, p, s) = (u1, p1, s1)"
    by (cases "fold (collectDoc (popPath pop)) nrs (u, p, s)") auto
  note a = fold_collectDoc [OF step]
  have "fold (\<lambda>pop ids. fold (collectDoc (popPath pop)) nrs ids) pops (u1, p1, s1) = (u', p', s')"
    using Cons.prems step by simp
  note b = Cons.IH [OF this]
  show ?case
    using a b by (auto simp: requested_def split: if_splits)
qed

lemma collectIds_sets:
  assumes "collectIds pops results = (userIds, productIds, shopkeeperIds)"
  shows "set (idValues userIds) =
           (if requested ''salesman'' pops then keysOf salesman results else {}) \<union>
           (if requested ''dealer'' pops then keysOf dealer results else {})"
    and "set (idValues productIds) =
           (if requested ''product'' pops then keysOf productFk results else {})"
    and "set (idValues shopkeeperIds) =
           (if requested ''shopkeeper'' pops then keysOf shopkeeper results else {})"
  using fold_collect_all [of "enumerate 0 results" pops "[]" "[]" "[]"
      userIds productIds shopkeeperIds] assms
  by (simp_all add: collectIds_def idValues_def)

text \<open>
  Two sales that hold the same salesman contribute two members: the batch lookup is
  sent with the identifier twice.
\<close>

lemma same_identifier_in_two_records:
  "fst (queryArchiveSales
          (collection [(exampleDoc 1 5)\<lparr>salesman := Ref 7\<rparr>, (exampleDoc 2 4)\<lparr>salesman := Ref 7\<rparr>])
          (entities noEntities) []
          \<lparr>aPopulate = [PopStr ''salesman'', PopStr ''salesman''], aSort = None, aSkip = 0,
           aLimit = None, aLean = True\<rparr>) =
     [Batch UserM [7, 7]]"
  by code_simp

lemma lookupMap_find: "lookupMap es i = find (\<lambda>e. eid e = i) (rev es)"
proof -
  have "map_of (map (\<lambda>e. (eid e, e)) xs) i = find (\<lambda>e. eid e = i) xs" for xs
    by (induction xs) auto
  then show ?thesis by (simp add: lookupMap_def rev_map)
qed

lemma stitch_Unset: "stitch m Unset = Unset"
  by (simp add: stitch_def)

lemma stitchSale_closed:
  "stitchSale um pm sm pop r =
     (if popPath pop = ''salesman'' then r\<lparr>salesman := stitch um (salesman r)\<rparr>
      else if popPath pop = ''dealer'' then r\<lparr>dealer := stitch um (dealer r)\<rparr>
      else if popPath pop = ''product'' then r\<lparr>productFk := stitch pm (productFk r)\<rparr>
      else if popPath pop = ''shopkeeper'' then r\<lparr>shopkeeper := stitch sm (shopkeeper r)\<rparr>
      else r)"
proof -
  consider (a) "popPath pop = ''salesman''" | (b) "popPath pop = ''dealer''"
    | (c) "popPath pop = ''product''" | (d) "popPath pop = ''shopkeeper''"
    | (e) "popPath pop \<noteq> ''salesman''" "popPath pop \<noteq> ''dealer''"
          "popPath pop \<noteq> ''product''" "popPath pop \<noteq> ''shopkeeper''"
    by blast
  then show ?thesis
  proof cases
    case a
    then show ?thesis
      by (cases "salesman r = Unset") (simp_all add: stitchSale_def stitch_Unset)
  next
    case b
    then show ?thesis
      by (cases "dealer r = Unset") (simp_all add: stitchSale_def stitch_Unset)
  next
    case c
    then show ?thesis
      by (cases "productFk r = Unset") (simp_all add: stitchSale_def stitch_Unset)
  next
    case d
    then show ?thesis
      by (cases "shopkeeper r = Unset") (simp_all add: stitchSale_def stitch_Unset)
  next
    case e
    then show ?thesis by (simp add: stitchSale_def)
  qed
qed

lemma stitched_step:
  assumes n: "popPath pop \<notin> set (map popPath pops)"
  shows "stitched pops um pm sm (stitchSale um pm sm pop r) = stitched (pop # pops) um pm sm r"
proof -
  consider (a) "popPath pop = ''salesman''" | (b) "popPath pop = ''dealer''"
    | (c) "popPath pop = ''product''" | (d) "popPath pop = ''shopkeeper''"
    | (e) "popPath pop \<noteq> ''salesman''" "popPath pop \<noteq> ''dealer''"
          "popPath pop \<noteq> ''product''" "popPath pop \<noteq> ''shopkeeper''"
    by blast
  then show ?thesis
  proof cases
    case a
    then show ?thesis using n by (simp add: stitchSale_closed stitched_def)
  next
    case b
    then show ?thesis using n by (simp add: stitchSale_closed stitched_def)
  next
    case c
    then show ?thesis using n by (simp add: stitchSale_closed stitched_def)
  next
    case d
    then show ?thesis using n by (simp add: stitchSale_closed stitched_def)
  next
    case e
    then have "''salesman'' \<noteq> popPath pop" "''dealer'' \<noteq> popPath pop"
      "''product'' \<noteq> popPath pop" "''shopkeeper'' \<noteq> popPath pop"
      by auto
    then show ?thesis using e by (simp add: stitchSale_closed stitched_def)
  qed
qed

lemma fold_stitchSale:
  "distinct (map popPath pops) \<Longrightarrow>
   fold (stitchSale um pm sm) pops r = stitched pops um pm sm r"
proof (induction pops arbitrary: r)
  case Nil
  show ?case by (simp add: stitched_def)
next
  case (Cons pop pops)
  have d: "distinct (map popPath pops)" and n: "popPath pop \<notin> set (map popPath pops)"
    using Cons.prems by simp_all
  have "fold (stitchSale um pm sm) (pop # pops) r = stitched pops um pm sm (stitchSale um pm sm pop r)"
    using Cons.IH [OF d] by simp
  also have "\<dots> = stitched (pop # pops) um pm sm r"
    by (rule stitched_step [OF n])
  finally show ?case .
qed

text \<open>
  The resolutions of archived payments and requests send point lookups only.
\<close>

lemma populatePayment_points:
  "list_all isPoint sent \<Longrightarrow> list_all isPoint (fst (populatePayment rs pop r sent))"
  by (auto simp: populatePayment_def findByIdSent_def split: sum.splits option.splits)

lemma populateRequest_points:
  "list_all isPoint sent \<Longrightarrow> list_all isPoint (fst (populateRequest rs pop r sent))"
  by (auto simp: populateRequest_def findByIdSent_def split: sum.splits option.splits)

lemma populateEach_points:
  assumes "\<And>pop r sent. list_all isPoint sent \<Longrightarrow> list_all isPoint (fst (step pop r sent))"
  shows "list_all isPoint sent \<Longrightarrow> list_all isPoint (fst (populateEach step pops r sent))"
proof (induction pops arbitrary: r sent)
  case Nil
  then show ?case by simp
next
  case (Cons pop pops)
  have a: "list_all isPoint (fst (step pop r sent))" using assms Cons.prems by blast
  show ?case
  proof (cases "step pop r sent")
    case (Pair sent1 res)
    then show ?thesis using a Cons.IH [of sent1] by (cases res) simp_all
  qed
qed

lemma populateAll_points:
  assumes "\<And>pop r sent. list_all isPoint sent \<Longrightarrow> list_all isPoint (fst (step pop r sent))"
  shows "list_all isPoint sent \<Longrightarrow> list_all isPoint (fst (populateAll step pops results sent))"
proof (induction results arbitrary: sent)
  case Nil
  then show ?case by simp
next
  case (Cons r results)
  have a: "list_all isPoint (fst (populateEach step pops r sent))"
    using populateEach_points [of step sent pops r] assms Cons.prems by blast
  show ?case
  proof (cases "populateEach step pops r sent")
    case (Pair sent1 res)
    show ?thesis
    proof (cases res)
      case (Inl e)
      then show ?thesis using Pair a by simp
    next
      case (Inr r1)
      have b: "list_all isPoint (fst (populateAll step pops results sent1))"
        using Cons.IH [of sent1] a Pair by simp
      show ?thesis
        using Pair Inr b
        by (cases "populateAll step pops results sent1")
           (auto split: sum.splits)
    qed
  qed
qed

lemma queryArchivePayments_points:
  "list_all isPoint (fst (queryArchivePayments arch rs q opts))"
  using populateAll_points [of "populatePayment rs" "[]", OF populatePayment_points]
  by (auto simp: queryArchivePayments_def split: sum.splits)

lemma queryArchiveDealerRequests_points:
  "list_all isPoint (fst (queryArchiveDealerRequests arch rs q opts))"
  using populateAll_points [of "populateRequest rs" "[]", OF populateRequest_points]
  by (auto simp: queryArchiveDealerRequests_def split: sum.splits)

text \<open>
  C8 as stated (one batch lookup per requested path, never point lookups, for sales,
  payments and requests alike) fails. Two archived payments with the path
  \<^verbatim>\<open>dealer\<close> requested are resolved by two point lookups, one per record, and no batch
  lookup. A sale with the three paths \<^verbatim>\<open>salesman\<close>, \<^verbatim>\<open>dealer\<close> and \<^verbatim>\<open>product\<close> requested
  and no product set is resolved by one batch lookup, not three: the two user paths
  share one lookup and no lookup is sent for a path without identifiers.
\<close>

theorem C8_batch_counterexample:
  "fst (queryArchivePayments
          (collection [(exampleDoc 1 5)\<lparr>dealer := Ref 7\<rparr>, (exampleDoc 2 4)\<lparr>dealer := Ref 8\<rparr>])
          (entities noEntities) []
          \<lparr>aPopulate = [PopStr ''dealer''], aSort = None, aSkip = 0, aLimit = None, aLean = True\<rparr>) =
     [Point UserM 7, Point UserM 8] \<and>
   fst (queryArchiveSales
          (collection [(exampleDoc 1 5)\<lparr>salesman := Ref 7, dealer := Ref 8\<rparr>])
          (entities noEntities) []
          \<lparr>aPopulate = [PopStr ''salesman'', PopStr ''dealer'', PopStr ''product''], aSort = None,
           aSkip = 0, aLimit = None, aLean = True\<rparr>) =
     [Batch UserM [7, 8]]"
  by code_simp

text \<open>
  C8 as amended. For a batch of archived sales, resolution collects, across the whole
  batch, the identifiers per referenced collection (the users of the requested paths
  \<^verbatim>\<open>salesman\<close> and \<^verbatim>\<open>dealer\<close> together, the products, the shopkeepers) and sends one
  batch lookup for each collection for which an identifier was collected: at most three
  lookups, all batch lookups, to distinct collections, whatever the number of records
  and of requested paths. When the lookups that are sent answer and every path is
  requested once, each sale comes back with its requested foreign keys replaced by the
  fetched entity with that identifier, or by \<^verbatim>\<open>null\<close> when none was fetched.
\<close>

theorem C8_sales_resolved_in_batches:
  assumes f: "execFind arch q (archiveFindOpts opts) = Inr results"
    and p: "aPopulate opts \<noteq> []" and r: "results \<noteq> []"
    and ids: "collectIds (aPopulate opts) results = (userIds, productIds, shopkeeperIds)"
  shows "set (idValues userIds) =
           (if requested ''salesman'' (aPopulate opts) then keysOf salesman results else {}) \<union>
           (if requested ''dealer'' (aPopulate opts) then keysOf dealer results else {}) \<and>
         set (idValues productIds) =
           (if requested ''product'' (aPopulate opts) then keysOf productFk results else {}) \<and>
         set (idValues shopkeeperIds) =
           (if requested ''shopkeeper'' (aPopulate opts) then keysOf shopkeeper results else {}) \<and>
         fst (queryArchiveSales arch rs q opts) =
           (if userIds \<noteq> [] then [Batch UserM (idValues userIds)] else []) @
           (if productIds \<noteq> [] then [Batch ProductM (idValues productIds)] else []) @
           (if shopkeeperIds \<noteq> [] then [Batch ShopkeeperM (idValues shopkeeperIds)] else []) \<and>
         length (fst (queryArchiveSales arch rs q opts)) \<le> 3 \<and>
         list_all isBatch (fst (queryArchiveSales arch rs q opts)) \<and>
         distinct (map lookupColl (fst (queryArchiveSales arch rs q opts))) \<and>
         (distinct (map popPath (aPopulate opts)) \<and>
          (if userIds \<noteq> [] then findIn (rs UserM) (idValues userIds) ''name email''
           else Inr []) = Inr us \<and>
          (if productIds \<noteq> []
           then findIn (rs ProductM) (idValues productIds) ''title packetPrice packetsPerStrip image''
           else Inr []) = Inr ps \<and>
          (if shopkeeperIds \<noteq> []
           then findIn (rs ShopkeeperM) (idValues shopkeeperIds) ''name phone email location''
           else Inr []) = Inr ss \<longrightarrow>
            snd (queryArchiveSales arch rs q opts) =
              Inr (map (stitched (aPopulate opts) (lookupMap us) (lookupMap ps) (lookupMap ss))
                     results)) \<and>
         (\<forall>es i. lookupMap es i = find (\<lambda>e. eid e = i) (rev es)) \<and>
         (\<forall>m i. stitch m (Ref i) = (case m i of Some e \<Rightarrow> Obj e | None \<Rightarrow> Unset))"
proof -
  note sets = collectIds_sets [OF ids]
  have sent: "fst (queryArchiveSales arch rs q opts) =
           (if userIds \<noteq> [] then [Batch UserM (idValues userIds)] else []) @
           (if productIds \<noteq> [] then [Batch ProductM (idValues productIds)] else []) @
           (if shopkeeperIds \<noteq> [] then [Batch ShopkeeperM (idValues shopkeeperIds)] else [])"
    using f p r ids
    by (simp add: queryArchiveSales_def resolveSales_def Let_def split: sum.splits)
  have len: "length (fst (queryArchiveSales arch rs q opts)) \<le> 3"
    and bat: "list_all isBatch (fst (queryArchiveSales arch rs q opts))"
    and dis: "distinct (map lookupColl (fst (queryArchiveSales arch rs q opts)))"
    unfolding sent by simp_all
  have st: "snd (queryArchiveSales arch rs q opts) =
              Inr (map (stitched (aPopulate opts) (lookupMap us) (lookupMap ps) (lookupMap ss))
                     results)"
    if d: "distinct (map popPath (aPopulate opts))"
      and u: "(if userIds \<noteq> [] then findIn (rs UserM) (idValues userIds) ''name email''
               else Inr []) = Inr us"
      and pr: "(if productIds \<noteq> []
                then findIn (rs ProductM) (idValues productIds)
                       ''title packetPrice packetsPerStrip image''
                else Inr []) = Inr ps"
      and sh: "(if shopkeeperIds \<noteq> []
                then findIn (rs ShopkeeperM) (idValues shopkeeperIds) ''name phone email location''
                else Inr []) = Inr ss"
  proof -
    have "snd (resolveSales rs (aPopulate opts) results) =
        Inr (map (\<lambda>r. fold (stitchSale (lookupMap us) (lookupMap ps) (lookupMap ss))
                        (aPopulate opts) r) results)"
      unfolding resolveSales_def ids Let_def prod.case u pr sh by simp
    then show ?thesis
      using f p r by (simp add: queryArchiveSales_def fold_stitchSale [OF d])
  qed
  have lm: "\<forall>es i. lookupMap es i = find (\<lambda>e. eid e = i) (rev es)"
    by (simp add: lookupMap_find)
  have sr: "\<forall>m i. stitch m (Ref i) = (case m i of Some e \<Rightarrow> Obj e | None \<Rightarrow> Unset)"
    by (simp add: stitch_def)
  show ?thesis
    using sets sent len bat dis st lm sr by blast
qed

theorem C8_sales_resolved_in_batches_witness:
  "execFind (collection [(exampleDoc 1 5)\<lparr>salesman := Ref 7, dealer := Ref 8, productFk := Ref 3\<rparr>,
                         (exampleDoc 2 4)\<lparr>salesman := Ref 9, dealer := Ref 6, productFk := Ref 4\<rparr>]) []
     (archiveFindOpts \<lparr>aPopulate = [PopStr ''salesman'', PopObj ''dealer'' (Some ''name''),
        PopStr ''product''], aSort = None, aSkip = 0, aLimit = None, aLean = True\<rparr>) =
     Inr [(exampleDoc 1 5)\<lparr>salesman := Ref 7, dealer := Ref 8, productFk := Ref 3\<rparr>,
          (exampleDoc 2 4)\<lparr>salesman := Ref 9, dealer := Ref 6, productFk := Ref 4\<rparr>] \<and>
   collectIds [PopStr ''salesman'', PopObj ''dealer'' (Some ''name''), PopStr ''product'']
     [(exampleDoc 1 5)\<lparr>salesman := Ref 7, dealer := Ref 8, productFk := Ref 3\<rparr>,
      (exampleDoc 2 4)\<lparr>salesman := Ref 9, dealer := Ref 6, productFk := Ref 4\<rparr>] =
     ([(0, ''salesman'', 7), (1, ''salesman'', 9), (0, ''dealer'', 8), (1, ''dealer'', 6)],
      [(0, ''product'', 3), (1, ''product'', 4)], []) \<and>
   distinct (map popPath [PopStr ''salesman'', PopObj ''dealer'' (Some ''name''), PopStr ''product'']) \<and>
   findIn (entities exampleEntities UserM) [7, 9, 8, 6] ''name email'' =
     Inr [Entity 7 ''user 7'' Unset, Entity 8 ''user 8'' Unset] \<and>
   findIn (entities exampleEntities ProductM) [3, 4] ''title packetPrice packetsPerStrip image'' =
     Inr [Entity 3 ''product 3'' Unset] \<and>
   fst (queryArchiveSales
          (collection [(exampleDoc 1 5)\<lparr>salesman := Ref 7, dealer := Ref 8, productFk := Ref 3\<rparr>,
                       (exampleDoc 2 4)\<lparr>salesman := Ref 9, dealer := Ref 6, productFk := Ref 4\<rparr>])
          (entities exampleEntities) []
          \<lparr>aPopulate = [PopStr ''salesman'', PopObj ''dealer'' (Some ''name''), PopStr ''product''],
           aSort = None, aSkip = 0, aLimit = None, aLean = True\<rparr>) =
     [Batch UserM [7, 9, 8, 6], Batch ProductM [3, 4]] \<and>
   snd (queryArchiveSales
          (collection [(exampleDoc 1 5)\<lparr>salesman := Ref 7, dealer := Ref 8, productFk := Ref 3\<rparr>,
                       (exampleDoc 2 4)\<lparr>salesman := Ref 9, dealer := Ref 6, productFk := Ref 4\<rparr>])
          (entities exampleEntities) []
          \<lparr>aPopulate = [PopStr ''salesman'', PopObj ''dealer'' (Some ''name''), PopStr ''product''],
           aSort = None, aSkip = 0, aLimit = None, aLean = True\<rparr>) =
     Inr [(exampleDoc 1 5)\<lparr>salesman := Obj (Entity 7 ''user 7'' Unset),
                            dealer := Obj (Entity 8 ''user 8'' Unset),
                            productFk := Obj (Entity 3 ''product 3'' Unset)\<rparr>,
          (exampleDoc 2 4)\<lparr>salesman := Unset, dealer := Unset, productFk := Unset\<rparr>]"
proof -
  let ?s1 = "(exampleDoc 1 5)\<lparr>salesman := Ref 7, dealer := Ref 8, productFk := Ref 3\<rparr>"
  let ?s2 = "(exampleDoc 2 4)\<lparr>salesman := Ref 9, dealer := Ref 6, productFk := Ref 4\<rparr>"
  let ?pops = "[PopStr ''salesman'', PopObj ''dealer'' (Some ''name''), PopStr ''product'']"
  let ?opts = "\<lparr>aPopulate = ?pops, aSort = None, aSkip = 0, aLimit = None, aLean = True\<rparr>"
  let ?u = "[(0, ''salesman'', 7), (1, ''salesman'', 9), (0, ''dealer'', 8), (1, ''dealer'', 6)]"
  let ?p = "[(0, ''product'', 3), (1, ''product'', 4)]"
  let ?us = "[Entity 7 ''user 7'' Unset, Entity 8 ''user 8'' Unset]"
  let ?ps = "[Entity 3 ''product 3'' Unset]"
  have f: "execFind (collection [?s1, ?s2]) [] (archiveFindOpts ?opts) = Inr [?s1, ?s2]"
    by code_simp
  have p: "aPopulate ?opts \<noteq> []" by simp
  have r: "[?s1, ?s2] \<noteq> []" by simp
  have ids: "collectIds (aPopulate ?opts) [?s1, ?s2] = (?u, ?p, [])"
    by code_simp
  have d: "distinct (map popPath (aPopulate ?opts))"
    by simp
  have u: "(if ?u \<noteq> [] then findIn (entities exampleEntities UserM) (idValues ?u) ''name email''
            else Inr []) = Inr ?us"
    by code_simp
  have pr: "(if ?p \<noteq> []
             then findIn (entities exampleEntities ProductM) (idValues ?p)
                    ''title packetPrice packetsPerStrip image''
             else Inr []) = Inr ?ps"
    by code_simp
  have sh: "(if ([] :: idobj list) \<noteq> []
             then findIn (entities exampleEntities ShopkeeperM) (idValues [])
                    ''name phone email location''
             else Inr []) = Inr []"
    by simp
  have u': "findIn (entities exampleEntities UserM) [7, 9, 8, 6] ''name email'' = Inr ?us"
    by code_simp
  have pr': "findIn (entities exampleEntities ProductM) [3, 4]
      ''title packetPrice packetsPerStrip image'' = Inr ?ps"
    by code_simp
  have ev: "map (stitched (aPopulate ?opts) (lookupMap ?us) (lookupMap ?ps) (lookupMap []))
            [?s1, ?s2] =
     [(exampleDoc 1 5)\<lparr>salesman := Obj (Entity 7 ''user 7'' Unset),
                            dealer := Obj (Entity 8 ''user 8'' Unset),
                            productFk := Obj (Entity 3 ''product 3'' Unset)\<rparr>,
      (exampleDoc 2 4)\<lparr>salesman := Unset, dealer := Unset, productFk := Unset\<rparr>]"
    by code_simp
  have iv: "idValues ?u = [7, 9, 8, 6]" "idValues ?p = [3, 4]"
    by code_simp+
  note A = C8_sales_resolved_in_batches [OF f p r ids, of "entities exampleEntities" ?us ?ps "[]"]
  have a1: "fst (queryArchiveSales (collection [?s1, ?s2]) (entities exampleEntities) [] ?opts) =
      [Batch UserM (idValues ?u), Batch ProductM (idValues ?p)]"
    using A by simp
  have a2: "snd (queryArchiveSales (collection [?s1, ?s2]) (entities exampleEntities) [] ?opts) =
      Inr (map (stitched (aPopulate ?opts) (lookupMap ?us) (lookupMap ?ps) (lookupMap []))
            [?s1, ?s2])"
    using A d u pr sh by blast
  show ?thesis
    using f ids d u' pr' a1 a2 ev iv by simp
qed

end
